theory Spec2Isabelle
  imports Main "HOL-Library.Word"
begin

section \<open>sensu-sh: the command hook, the query filter and the result encoders\<close>

text \<open>
  A shallow embedding of \<^verbatim>\<open>main.go\<close>: \<^verbatim>\<open>Prog.exec\<close>, \<^verbatim>\<open>Prog.filterJSON\<close>,
  \<^verbatim>\<open>Prog.filterEvent\<close>, \<^verbatim>\<open>jsonFilter.bind\<close>, \<^verbatim>\<open>jsonFilter.encoder\<close>,
  \<^verbatim>\<open>jsonFilter.run\<close> and \<^verbatim>\<open>plainEncoder.Encode\<close>.

  The packages the program imports (gojq, yaml.v3, encoding/json, strconv, fmt) are
  not part of the repository. Their functions are the fields of the record \<open>lib\<close>, and
  every general theorem holds for all values of that record. Package \<^verbatim>\<open>flag\<close> is
  modelled for boolean flags in \<open>flag_Parse\<close>, after \<^verbatim>\<open>FlagSet.Parse\<close> and
  \<^verbatim>\<open>FlagSet.parseOne\<close> of the Go standard library.
\<close>

subsection \<open>Values, readers, writers\<close>

text \<open>
  A Go \<^verbatim>\<open>interface{}\<close> as the program distinguishes its dynamic types: \<^verbatim>\<open>error\<close> in
  \<^verbatim>\<open>jsonFilter.run\<close>; \<^verbatim>\<open>map[string]interface{}\<close>, \<^verbatim>\<open>[]interface{}\<close>, \<^verbatim>\<open>string\<close>
  and \<^verbatim>\<open>float64\<close> in \<^verbatim>\<open>plainEncoder.Encode\<close>. A \<^verbatim>\<open>float64\<close> is its 64 bits.
  \<open>VOther\<close> stands for a value of any further dynamic type. A map is kept as the list
  of its entries; the program hands maps on and never looks inside one.
\<close>

datatype val =
    VNil
  | VBool bool
  | VInt int
  | VFloat "64 word"
  | VString string
  | VSlice "val list"
  | VMap "(string \<times> val) list"
  | VError string
  | VOther string

text \<open>
  An \<^verbatim>\<open>io.Reader\<close> with finite content: the bytes it delivers, then end of file
  (\<open>None\<close>) or a read error (\<open>Some e\<close>).
\<close>

datatype reader = Reader string "string option"

definition strings_NewReader :: "string \<Rightarrow> reader" where
  "strings_NewReader str = Reader str None"

text \<open>\<^verbatim>\<open>nullStream\<close>: \<^verbatim>\<open>Read\<close> returns \<^verbatim>\<open>0, io.EOF\<close> at once.\<close>

definition nullStream :: reader where
  "nullStream = Reader [] None"

fun ioutil_ReadAll :: "reader \<Rightarrow> string + string" where
  "ioutil_ReadAll (Reader data None) = Inr data"
| "ioutil_ReadAll (Reader data (Some e)) = Inl e"

text \<open>
  An \<^verbatim>\<open>io.Writer\<close>: the bytes written so far and, for a writer that breaks, the number
  of writes it still accepts (\<open>None\<close>: every write succeeds). A refused write adds
  nothing.
\<close>

datatype writer = Writer string "nat option"

fun io_WriteString :: "writer \<Rightarrow> string \<Rightarrow> (string + unit) \<times> writer" where
  "io_WriteString (Writer buf None) str = (Inr (), Writer (buf @ str) None)"
| "io_WriteString (Writer buf (Some 0)) str = (Inl ''write failed'', Writer buf (Some 0))"
| "io_WriteString (Writer buf (Some (Suc n))) str = (Inr (), Writer (buf @ str) (Some n))"

subsection \<open>The imported packages\<close>

text \<open>One step of the YAML decoder: a document, or a decoding error. The end of the list is \<^verbatim>\<open>io.EOF\<close>.\<close>

datatype dec_item = Doc val | DecErr string

text \<open>
  \<^item> \<open>gojq_Parse\<close>: \<^verbatim>\<open>gojq.Parse\<close>, the error text or the compiled query;
  \<^item> \<open>query_Run\<close>, \<open>iter_Next\<close>: \<^verbatim>\<open>Query.Run\<close> and \<^verbatim>\<open>Iter.Next\<close>; \<open>None\<close> is \<^verbatim>\<open>ok = false\<close>.
    An iterator may yield for ever;
  \<^item> \<open>yaml_Decode\<close>: the results of the successive \<^verbatim>\<open>Decode\<close> calls of a
    \<^verbatim>\<open>yaml.NewDecoder\<close> on a reader;
  \<^item> \<open>json_Marshal\<close>: \<^verbatim>\<open>json.Marshal\<close>;
  \<^item> \<open>json_Encode indent\<close>: what \<^verbatim>\<open>json.Encoder.Encode\<close> writes with
    \<^verbatim>\<open>SetEscapeHTML(false)\<close> and, when \<open>indent\<close>, \<^verbatim>\<open>SetIndent("", "  ")\<close>;
  \<^item> \<open>yaml_Encode n\<close>: what a \<^verbatim>\<open>yaml.Encoder\<close> writes for a value after \<open>n\<close> earlier ones;
  \<^item> \<open>strconv_FormatFloat\<close>: \<^verbatim>\<open>strconv.FormatFloat(f, fmt, prec, bitSize)\<close>;
  \<^item> \<open>fmt_Sprint\<close>: \<^verbatim>\<open>fmt.Sprint\<close> of one value.
\<close>

record ('q, 'it) lib =
  gojq_Parse :: "string \<Rightarrow> string + 'q"
  query_Run :: "'q \<Rightarrow> val \<Rightarrow> 'it"
  iter_Next :: "'it \<Rightarrow> (val \<times> 'it) option"
  yaml_Decode :: "reader \<Rightarrow> dec_item list"
  json_Marshal :: "val \<Rightarrow> string + string"
  json_Encode :: "bool \<Rightarrow> val \<Rightarrow> string + string"
  yaml_Encode :: "nat \<Rightarrow> val \<Rightarrow> string + string"
  strconv_FormatFloat :: "64 word \<Rightarrow> char \<Rightarrow> int \<Rightarrow> nat \<Rightarrow> string"
  fmt_Sprint :: "val \<Rightarrow> string"

subsection \<open>Package strings\<close>

definition HasPrefix :: "string \<Rightarrow> string \<Rightarrow> bool" where
  "HasPrefix s pre = (take (length pre) s = pre)"

definition TrimPrefix :: "string \<Rightarrow> string \<Rightarrow> string" where
  "TrimPrefix s pre = (if HasPrefix s pre then drop (length pre) s else s)"

fun Join :: "string list \<Rightarrow> string \<Rightarrow> string" where
  "Join [] sep = []"
| "Join [x] sep = x"
| "Join (x # y # ys) sep = x @ sep @ Join (y # ys) sep"

subsection \<open>Package flag, for boolean flags\<close>

datatype flag_error =
    ErrHelp
  | BadFlagSyntax string
  | NotDefined string
  | InvalidBoolean string string

text \<open>\<^verbatim>\<open>strconv.ParseBool\<close>.\<close>

definition ParseBool :: "string \<Rightarrow> bool option" where
  "ParseBool str =
     (if str \<in> set [''1'', ''t'', ''T'', ''TRUE'', ''true'', ''True''] then Some True
      else if str \<in> set [''0'', ''f'', ''F'', ''FALSE'', ''false'', ''False''] then Some False
      else None)"

text \<open>
  The scan for \<^verbatim>\<open>=\<close> in \<^verbatim>\<open>parseOne\<close>, from index 1 (``equals cannot be first''):
  the flag's name and, if there is one, its value.
\<close>

definition split_value :: "string \<Rightarrow> string \<times> string option" where
  "split_value name =
     (let post = dropWhile (\<lambda>c. c \<noteq> CHR ''='') (tl name)
      in if post = [] then (name, None)
         else (hd name # takeWhile (\<lambda>c. c \<noteq> CHR ''='') (tl name), Some (tl post)))"

text \<open>
  \<^verbatim>\<open>FlagSet.parseOne\<close> on the arguments \<open>s # rest\<close>: a flag was seen and set
  (\<open>Seen\<close>, with the flag variables; \<open>rest\<close> is left to parse), no flag was seen
  (\<open>NotSeen\<close>, with the arguments that are left), or the error. \<open>formal\<close> is the
  table of defined flags, each with the setter of its variable; \<open>st\<close> holds the flag
  variables.
\<close>

datatype 'st parsed = Seen 'st | NotSeen "string list" | Failed flag_error

definition parseOne ::
  "(string \<Rightarrow> (bool \<Rightarrow> 'st \<Rightarrow> 'st) option) \<Rightarrow> 'st \<Rightarrow> string \<Rightarrow> string list \<Rightarrow> 'st parsed"
where
  "parseOne formal st s rest =
     (if length s < 2 \<or> s ! 0 \<noteq> CHR ''-'' then NotSeen (s # rest)
      else if s = ''--'' then NotSeen rest
      else
        (let name = (if s ! 1 = CHR ''-'' then drop 2 s else drop 1 s) in
         if length name = 0 \<or> name ! 0 = CHR ''-'' \<or> name ! 0 = CHR ''='' then Failed (BadFlagSyntax s)
         else
           (case split_value name of (name', val) \<Rightarrow>
              (case formal name' of
                 None \<Rightarrow>
                   if name' = ''help'' \<or> name' = ''h'' then Failed ErrHelp
                   else Failed (NotDefined name')
               | Some setter \<Rightarrow>
                   (case val of
                      None \<Rightarrow> Seen (setter True st)
                    | Some v \<Rightarrow>
                        (case ParseBool v of
                           None \<Rightarrow> Failed (InvalidBoolean v name')
                         | Some b \<Rightarrow> Seen (setter b st)))))))"

text \<open>
  \<^verbatim>\<open>FlagSet.Parse\<close> with \<^verbatim>\<open>ContinueOnError\<close>: \<^verbatim>\<open>parseOne\<close> is repeated until it sees no
  flag. The result is the error, or the flag variables and \<^verbatim>\<open>f.Args()\<close>.
\<close>

fun flag_Parse ::
  "(string \<Rightarrow> (bool \<Rightarrow> 'st \<Rightarrow> 'st) option) \<Rightarrow> 'st \<Rightarrow> string list \<Rightarrow> flag_error + ('st \<times> string list)"
where
  "flag_Parse formal st [] = Inr (st, [])"
| "flag_Parse formal st (s # rest) =
     (case parseOne formal st s rest of
        Seen st' \<Rightarrow> flag_Parse formal st' rest
      | NotSeen args \<Rightarrow> Inr (st, args)
      | Failed err \<Rightarrow> Inl err)"

subsection \<open>The interpreter's side: variables, the handler context, the streams\<close>

datatype ValueKind = Unset | String | NameRef | Indexed | Associative

record Variable =
  Kind :: ValueKind
  Str :: string
  List :: "string list"

text \<open>\<^verbatim>\<open>interp.HandlerCtx(ctx)\<close>: the part that is read.\<close>

record HandlerContext =
  Env :: "string \<Rightarrow> Variable"
  Stdin :: reader

text \<open>What a command leaves on its error stream.\<close>

datatype report =
    FlagOutput string flag_error
  | LogFlag string flag_error
  | Log string string

text \<open>Calls into the query engine, recorded in the order they are made.\<close>

datatype engine_call = CParse string | CRun string val

text \<open>
  The part of the world a command changes: its standard output, its error stream, and
  the record of the engine calls made so far.
\<close>

record io =
  Stdout :: writer
  Stderr :: "report list"
  calls :: "engine_call list"

text \<open>
  What a handler returns: \<^verbatim>\<open>nil\<close>, or \<^verbatim>\<open>interp.NewExitStatus(n)\<close>; \<open>Panic\<close> is the
  run-time panic of an index out of range.
\<close>

datatype ret = NoError | ExitStatus nat | Panic

definition Printf :: "string \<Rightarrow> string \<Rightarrow> io \<Rightarrow> io" where
  "Printf prefix msg s = s\<lparr>Stderr := Stderr s @ [Log prefix msg]\<rparr>"

subsection \<open>The encoders\<close>

text \<open>
  The three implementations of \<^verbatim>\<open>Encoder\<close>: a \<^verbatim>\<open>json.Encoder\<close> (indented or not), a
  \<^verbatim>\<open>yaml.Encoder\<close> (with the number of values it has encoded) and the
  \<^verbatim>\<open>plainEncoder\<close> with its field \<^verbatim>\<open>written\<close>. All write to the command's standard
  output, which is passed in and returned.
\<close>

datatype encoder = JSONEncoder bool | YAMLEncoder nat | PlainEncoder bool

definition newPlainEncoder :: encoder where
  "newPlainEncoder = PlainEncoder False"

text \<open>The type switch of \<^verbatim>\<open>plainEncoder.Encode\<close>.\<close>

fun plain_str :: "('q, 'it) lib \<Rightarrow> val \<Rightarrow> string + string" where
  "plain_str L (VMap m) = json_Marshal L (VMap m)"
| "plain_str L (VSlice xs) = json_Marshal L (VSlice xs)"
| "plain_str L (VString str) = Inr str"
| "plain_str L (VFloat f) = Inr (strconv_FormatFloat L f (CHR ''f'') (- 1) 64)"
| "plain_str L v = Inr (fmt_Sprint L v)"

definition plain_Encode ::
  "('q, 'it) lib \<Rightarrow> bool \<Rightarrow> val \<Rightarrow> writer \<Rightarrow> (string + unit) \<times> bool \<times> writer" where
  "plain_Encode L written v w =
     (case (if written then io_WriteString w [CHR 0x0A] else (Inr (), w)) of
        (Inl e, w1) \<Rightarrow> (Inl e, written, w1)
      | (Inr u, w1) \<Rightarrow>
          (case plain_str L v of
             Inl e \<Rightarrow> (Inl e, True, w1)
           | Inr str \<Rightarrow>
               (case io_WriteString w1 str of
                  (Inl e, w2) \<Rightarrow> (Inl e, True, w2)
                | (Inr u', w2) \<Rightarrow> (Inr (), True, w2))))"

text \<open>\<^verbatim>\<open>Encoder.Encode\<close>: the error or \<^verbatim>\<open>nil\<close>, the encoder and the output afterwards.\<close>

fun Encode :: "('q, 'it) lib \<Rightarrow> encoder \<Rightarrow> val \<Rightarrow> writer \<Rightarrow> (string + unit) \<times> encoder \<times> writer" where
  "Encode L (JSONEncoder indent) v w =
     (case json_Encode L indent v of
        Inl e \<Rightarrow> (Inl e, JSONEncoder indent, w)
      | Inr bytes \<Rightarrow> (case io_WriteString w bytes of (r, w') \<Rightarrow> (r, JSONEncoder indent, w')))"
| "Encode L (YAMLEncoder n) v w =
     (case yaml_Encode L n v of
        Inl e \<Rightarrow> (Inl e, YAMLEncoder n, w)
      | Inr bytes \<Rightarrow> (case io_WriteString w bytes of (r, w') \<Rightarrow> (r, YAMLEncoder (Suc n), w')))"
| "Encode L (PlainEncoder written) v w =
     (case plain_Encode L written v w of (r, written', w') \<Rightarrow> (r, PlainEncoder written', w'))"

subsection \<open>jsonFilter\<close>

record jsonFilter =
  pretty :: bool
  json :: bool
  yaml :: bool
  logger :: string

text \<open>\<^verbatim>\<open>jsonFilter.bind\<close>: the flags it defines, each with the field it sets.\<close>

definition bind :: "string \<Rightarrow> (bool \<Rightarrow> jsonFilter \<Rightarrow> jsonFilter) option" where
  "bind name =
     (if name = ''j'' \<or> name = ''json'' then Some (\<lambda>b j. j\<lparr>json := b\<rparr>)
      else if name = ''Y'' \<or> name = ''yaml'' then Some (\<lambda>b j. j\<lparr>yaml := b\<rparr>)
      else if name = ''p'' \<or> name = ''pretty'' then Some (\<lambda>b j. j\<lparr>pretty := b\<rparr>)
      else None)"

text \<open>\<^verbatim>\<open>jsonFilter.encoder\<close>.\<close>

definition encoder :: "jsonFilter \<Rightarrow> encoder" where
  "encoder j =
     (if json j then JSONEncoder (pretty j)
      else if yaml j then YAMLEncoder 0
      else newPlainEncoder)"

text \<open>
  The loop of \<^verbatim>\<open>jsonFilter.run\<close> over the iterator; \<open>prefix\<close> is the prefix of
  \<^verbatim>\<open>j.logger\<close>. It ends when the iterator does, at the first error value and at the
  first encoding error; on an iterator that yields values for ever it does not return,
  which is the result \<open>None\<close>.
\<close>

partial_function (option) run_loop ::
  "('q, 'it) lib \<Rightarrow> string \<Rightarrow> encoder \<Rightarrow> 'it \<Rightarrow> io \<Rightarrow> (ret \<times> io) option" where
  "run_loop L prefix enc iter s =
     (case iter_Next L iter of
        None \<Rightarrow> Some (NoError, s)
      | Some (v, iter') \<Rightarrow>
          (case v of
             VError err \<Rightarrow> Some (ExitStatus 1, Printf prefix (''query error: '' @ err) s)
           | _ \<Rightarrow>
               (case Encode L enc v (Stdout s) of
                  (Inl e, enc', w') \<Rightarrow>
                    Some (ExitStatus 1, Printf prefix (''encoding error: '' @ e) (s\<lparr>Stdout := w'\<rparr>))
                | (Inr u, enc', w') \<Rightarrow> run_loop L prefix enc' iter' (s\<lparr>Stdout := w'\<rparr>))))"

declare run_loop.simps [code]

text \<open>\<^verbatim>\<open>jsonFilter.run\<close>.\<close>

definition run :: "('q, 'it) lib \<Rightarrow> jsonFilter \<Rightarrow> string \<Rightarrow> val \<Rightarrow> io \<Rightarrow> (ret \<times> io) option" where
  "run L j queryStr input s =
     (let s1 = s\<lparr>calls := calls s @ [CParse queryStr]\<rparr> in
      case gojq_Parse L queryStr of
        Inl err \<Rightarrow> Some (ExitStatus 1, Printf (logger j) (''unable to parse query: '' @ err) s1)
      | Inr query \<Rightarrow>
          run_loop L (logger j) (encoder j) (query_Run L query input)
            (s1\<lparr>calls := calls s1 @ [CRun queryStr input]\<rparr>))"

subsection \<open>Prog\<close>

record Prog =
  event :: "(string \<times> val) list"
  defaultExec :: "HandlerContext \<Rightarrow> string list \<Rightarrow> io \<Rightarrow> (ret \<times> io) option"

text \<open>The decoding loop of \<^verbatim>\<open>filterJSON\<close>, over the results of the successive \<^verbatim>\<open>Decode\<close> calls.\<close>

fun decode_loop ::
  "('q, 'it) lib \<Rightarrow> jsonFilter \<Rightarrow> string \<Rightarrow> dec_item list \<Rightarrow> io \<Rightarrow> (ret \<times> io) option" where
  "decode_loop L j queryStr [] s = Some (NoError, s)"
| "decode_loop L j queryStr (DecErr err # ds) s =
     Some (ExitStatus 1, Printf (logger j) (''error decoding input: '' @ err) s)"
| "decode_loop L j queryStr (Doc input # ds) s =
     (case run L j queryStr input s of
        None \<Rightarrow> None
      | Some (NoError, s') \<Rightarrow> decode_loop L j queryStr ds s'
      | Some (err, s') \<Rightarrow> Some (err, s'))"

text \<open>\<^verbatim>\<open>filterJSON\<close> from the reader on: raw input, or the decoding loop.\<close>

definition filter_reader ::
  "('q, 'it) lib \<Rightarrow> jsonFilter \<Rightarrow> bool \<Rightarrow> string \<Rightarrow> reader \<Rightarrow> io \<Rightarrow> (ret \<times> io) option" where
  "filter_reader L j rawInput queryStr r s =
     (if rawInput then
        (case ioutil_ReadAll r of
           Inl err \<Rightarrow> Some (ExitStatus 1, Printf (logger j) (''error reading input: '' @ err) s)
         | Inr data \<Rightarrow> run L j queryStr (VString data) s)
      else decode_loop L j queryStr (yaml_Decode L r) s)"

text \<open>The reader \<^verbatim>\<open>filterJSON\<close> takes its input from, for the source argument.\<close>

definition source_reader :: "HandlerContext \<Rightarrow> string \<Rightarrow> reader" where
  "source_reader h source =
     (if source \<noteq> ''-'' then
        (let v = Env h source in
         strings_NewReader
           (case Kind v of
              String \<Rightarrow> Str v
            | Indexed \<Rightarrow> Join (List v) [CHR 0x0A]
            | _ \<Rightarrow> []))
      else Stdin h)"

text \<open>The flags of \<^verbatim>\<open>query\<close>: \<^verbatim>\<open>-R\<close>, \<^verbatim>\<open>-raw-input\<close> and those of \<^verbatim>\<open>jsonFilter.bind\<close>.\<close>

definition query_flags :: "string \<Rightarrow> (bool \<Rightarrow> bool \<times> jsonFilter \<Rightarrow> bool \<times> jsonFilter) option" where
  "query_flags name =
     (if name = ''R'' \<or> name = ''raw-input'' then Some (\<lambda>b (rawInput, j). (b, j))
      else map_option (\<lambda>setter b (rawInput, j). (rawInput, setter b j)) (bind name))"

definition new_filter :: "string \<Rightarrow> jsonFilter" where
  "new_filter prefix = \<lparr>pretty = False, json = False, yaml = False, logger = prefix\<rparr>"

text \<open>What a failed \<^verbatim>\<open>f.Parse\<close> makes of the command, in both \<^verbatim>\<open>filterJSON\<close> and \<^verbatim>\<open>filterEvent\<close>.\<close>

definition flag_failure :: "string \<Rightarrow> string \<Rightarrow> flag_error \<Rightarrow> io \<Rightarrow> ret \<times> io" where
  "flag_failure name prefix err s =
     (if err = ErrHelp then (ExitStatus 2, s\<lparr>Stderr := Stderr s @ [FlagOutput name err]\<rparr>)
      else (ExitStatus 1, s\<lparr>Stderr := Stderr s @ [FlagOutput name err, LogFlag prefix err]\<rparr>))"

text \<open>\<^verbatim>\<open>Prog.filterJSON\<close>.\<close>

definition filterJSON ::
  "('q, 'it) lib \<Rightarrow> Prog \<Rightarrow> HandlerContext \<Rightarrow> string option \<Rightarrow> string list \<Rightarrow> io \<Rightarrow> (ret \<times> io) option" where
  "filterJSON L p h forceVar args s =
     (case args of
        [] \<Rightarrow> Some (Panic, s)
      | cmd # flag_args \<Rightarrow>
          (case flag_Parse query_flags (False, new_filter ''query: '') flag_args of
             Inl err \<Rightarrow> Some (flag_failure ''query'' ''query: '' err s)
           | Inr ((rawInput, flt), rest) \<Rightarrow>
               (let args1 = (if length rest = 0 then [''.''] else rest);
                    args2 = (case forceVar of None \<Rightarrow> args1 | Some var \<Rightarrow> args1 @ [var])
                in case args2 of
                     [] \<Rightarrow> filter_reader L flt rawInput ''.'' (source_reader h ''-'') s
                   | [a0] \<Rightarrow> filter_reader L flt rawInput a0 (source_reader h ''-'') s
                   | [a0, a1] \<Rightarrow> filter_reader L flt rawInput a0 (source_reader h a1) s
                   | _ \<Rightarrow>
                       Some (ExitStatus 1,
                         Printf ''query: '' ''too many argument to query: expected 0..2'' s))))"

text \<open>\<^verbatim>\<open>Prog.filterEvent\<close>.\<close>

definition filterEvent ::
  "('q, 'it) lib \<Rightarrow> Prog \<Rightarrow> HandlerContext \<Rightarrow> string list \<Rightarrow> io \<Rightarrow> (ret \<times> io) option" where
  "filterEvent L p h args s =
     (case args of
        [] \<Rightarrow> Some (Panic, s)
      | cmd # flag_args \<Rightarrow>
          (case flag_Parse bind (new_filter ''event: '') flag_args of
             Inl err \<Rightarrow> Some (flag_failure ''event'' ''event: '' err s)
           | Inr (flt, rest) \<Rightarrow>
               if length rest = 1 then run L flt (rest ! 0) (VMap (event p)) s
               else if length rest > 1 then
                 Some (ExitStatus 1,
                   Printf ''event: '' ''too many arguments to event: expected 0..1'' s)
               else run L flt ''.'' (VMap (event p)) s))"

text \<open>\<^verbatim>\<open>Prog.exec\<close>, the exec handler given to the interpreter.\<close>

definition exec ::
  "('q, 'it) lib \<Rightarrow> Prog \<Rightarrow> HandlerContext \<Rightarrow> string list \<Rightarrow> io \<Rightarrow> (ret \<times> io) option" where
  "exec L p h args s =
     (case args of
        [] \<Rightarrow> Some (Panic, s)
      | cmd # rest \<Rightarrow>
          if cmd = ''query'' then filterJSON L p h None args s
          else if cmd = ''event'' then filterEvent L p h args s
          else if cmd = ''@'' \<or> \<not> HasPrefix cmd ''@'' then defaultExec p h args s
          else
            (let name = TrimPrefix cmd ''@'';
                 v = Env h name
             in if Kind v \<noteq> String \<and> Kind v \<noteq> Indexed then defaultExec p h args s
                else filterJSON L p h (Some name) (''query'' # rest) s))"

subsection \<open>Notions used to state the properties\<close>

text \<open>The type assertion \<^verbatim>\<open>val.(error)\<close>.\<close>

fun is_error :: "val \<Rightarrow> bool" where
  "is_error (VError e) = True"
| "is_error v = False"

text \<open>
  \<open>yields L iter vs = Some iter'\<close>: the next values of the iterator are \<open>vs\<close>, in this
  order, and \<open>iter'\<close> is the iterator after them.
\<close>

fun yields :: "('q, 'it) lib \<Rightarrow> 'it \<Rightarrow> val list \<Rightarrow> 'it option" where
  "yields L iter [] = Some iter"
| "yields L iter (v # vs) =
     (case iter_Next L iter of
        None \<Rightarrow> None
      | Some (v', iter') \<Rightarrow> if v' = v then yields L iter' vs else None)"

text \<open>The values \<open>vs\<close> encoded one after the other, up to the first encoding error.\<close>

fun encode_all ::
  "('q, 'it) lib \<Rightarrow> encoder \<Rightarrow> val list \<Rightarrow> writer \<Rightarrow> (string + unit) \<times> encoder \<times> writer" where
  "encode_all L enc [] w = (Inr (), enc, w)"
| "encode_all L enc (v # vs) w =
     (case Encode L enc v w of
        (Inl e, enc', w') \<Rightarrow> (Inl e, enc', w')
      | (Inr u, enc', w') \<Rightarrow> encode_all L enc' vs w')"

text \<open>The number of \<^verbatim>\<open>gojq.Parse\<close> calls among recorded engine calls.\<close>

fun is_CParse :: "engine_call \<Rightarrow> bool" where
  "is_CParse (CParse q) = True"
| "is_CParse (CRun q v) = False"

definition compiles :: "engine_call list \<Rightarrow> nat" where
  "compiles cs = length (filter is_CParse cs)"

subsection \<open>An instance of the packages, for closed examples\<close>

text \<open>
  A query engine whose iterators are lists and which knows the queries \<^verbatim>\<open>.\<close> and
  \<^verbatim>\<open>.[]\<close>, and the answers of the other packages at a handful of inputs: the YAML
  streams \<^verbatim>\<open>hello\<close> and \<^verbatim>\<open>a\<close>, \<^verbatim>\<open>---\<close>, \<^verbatim>\<open>b\<close> (three lines) and the empty one,
  the JSON of \<^verbatim>\<open>{"a":1}\<close>, of \<^verbatim>\<open>[1,2]\<close> and of \<^verbatim>\<open>"hello"\<close>, the float 1.5 (the bits
  \<^verbatim>\<open>0x3FF8000000000000\<close>), and \<^verbatim>\<open>fmt.Sprint\<close> of \<^verbatim>\<open>nil\<close>, the booleans and
  the integers 0 to 9.
\<close>

definition list_Next :: "val list \<Rightarrow> (val \<times> val list) option" where
  "list_Next iter = (case iter of [] \<Rightarrow> None | v # vs \<Rightarrow> Some (v, vs))"

definition sample_lib :: "(val \<Rightarrow> val list, val list) lib" where
  "sample_lib =
     \<lparr>gojq_Parse =
        (\<lambda>q. if q = ''.'' then Inr (\<lambda>v. [v])
             else if q = ''.[]'' then
               Inr (\<lambda>v. case v of VSlice xs \<Rightarrow> xs | _ \<Rightarrow> [VError ''cannot iterate''])
             else Inl ''unexpected token''),
      query_Run = (\<lambda>q v. q v),
      iter_Next = list_Next,
      yaml_Decode =
        (\<lambda>r. if r = Reader [] None then []
             else if r = Reader ''hello'' None then [Doc (VString ''hello'')]
             else if r = Reader (''a'' @ [CHR 0x0A] @ ''---'' @ [CHR 0x0A] @ ''b'') None then
               [Doc (VString ''a''), Doc (VString ''b'')]
             else [DecErr ''yaml: not in the table'']),
      json_Marshal =
        (\<lambda>v. if v = VMap [(''a'', VInt 1)] then Inr (''{'' @ [CHR 0x22] @ ''a'' @ [CHR 0x22] @ '':1}'')
             else if v = VSlice [VInt 1, VInt 2] then Inr ''[1,2]''
             else Inl ''json: not in the table''),
      json_Encode =
        (\<lambda>indent v. if v = VString ''hello'' then Inr ([CHR 0x22] @ ''hello'' @ [CHR 0x22, CHR 0x0A])
             else Inl ''json: not in the table''),
      yaml_Encode =
        (\<lambda>n v. if n = 0 \<and> v = VString ''hello'' then Inr (''hello'' @ [CHR 0x0A])
             else Inl ''yaml: not in the table''),
      strconv_FormatFloat =
        (\<lambda>f fmt prec bitSize.
           if f = 0x3FF8000000000000 \<and> fmt = CHR ''f'' \<and> prec = - 1 \<and> bitSize = 64 then ''1.5''
           else []),
      fmt_Sprint =
        (\<lambda>v. case v of
               VNil \<Rightarrow> ''<nil>''
             | VBool b \<Rightarrow> (if b then ''true'' else ''false'')
             | VInt n \<Rightarrow> (if 0 \<le> n \<and> n < 10 then [char_of (48 + n)] else [])
             | _ \<Rightarrow> [])\<rparr>"

text \<open>The same packages with a query engine whose every result sequence is 1, an error, 2.\<close>

definition boom_lib :: "(val \<Rightarrow> val list, val list) lib" where
  "boom_lib = sample_lib\<lparr>query_Run := (\<lambda>q v. [VInt 1, VError ''boom'', VInt 2])\<rparr>"

text \<open>Nothing written yet, to a standard output that takes every write.\<close>

definition fresh_io :: io where
  "fresh_io = \<lparr>Stdout = Writer [] None, Stderr = [], calls = []\<rparr>"

text \<open>
  A handler context with the interpreter's empty standard input and three variables:
  the string \<^verbatim>\<open>v\<close>, the indexed \<^verbatim>\<open>docs\<close> and the associative \<^verbatim>\<open>assoc\<close>.
\<close>

definition sample_ctx :: HandlerContext where
  "sample_ctx =
     \<lparr>Env = (\<lambda>n. if n = ''v'' then \<lparr>Kind = String, Str = ''hello'', List = []\<rparr>
                 else if n = ''docs'' then \<lparr>Kind = Indexed, Str = [], List = [''a'', ''---'', ''b'']\<rparr>
                 else if n = ''assoc'' then \<lparr>Kind = Associative, Str = [], List = []\<rparr>
                 else \<lparr>Kind = Unset, Str = [], List = []\<rparr>),
      Stdin = nullStream\<rparr>"

text \<open>A program whose event is empty and whose default handler finds no command (status 127).\<close>

definition sample_prog :: Prog where
  "sample_prog = \<lparr>event = [], defaultExec = (\<lambda>h args s. Some (ExitStatus 127, s))\<rparr>"

section \<open>Lemmas\<close>

subsection \<open>Flag parsing\<close>

lemma parseOne_nonflag:
  "length x < 2 \<or> x ! 0 \<noteq> CHR ''-'' \<Longrightarrow> parseOne fm st x xs = NotSeen (x # xs)"
  by (simp add: parseOne_def)

lemma parseOne_terminator: "parseOne fm st ''--'' xs = NotSeen xs"
  by (simp add: parseOne_def)

text \<open>What \<open>parseOne\<close> makes of an argument does not depend on the arguments after it.\<close>

lemma parseOne_cases:
  obtains (nonflag) "\<And>r. parseOne fm st s r = NotSeen (s # r)"
  | (terminator) "s = ''--''"
  | (flag) st' where "\<And>r. parseOne fm st s r = Seen st'"
  | (failed) e where "\<And>r. parseOne fm st s r = Failed e"
proof -
  have "(\<forall>r. parseOne fm st s r = NotSeen (s # r)) \<or> s = ''--'' \<or>
        (\<exists>st'. \<forall>r. parseOne fm st s r = Seen st') \<or> (\<exists>e. \<forall>r. parseOne fm st s r = Failed e)"
    unfolding parseOne_def Let_def by (auto split: prod.splits option.splits)
  then show thesis using that by blast
qed

lemma flag_Parse_error_append:
  "flag_Parse fm st args = Inl e \<Longrightarrow> flag_Parse fm st (args @ xs) = Inl e"
proof (induction args arbitrary: st)
  case Nil
  then show ?case by simp
next
  case (Cons s rest)
  show ?case
    by (cases fm st s rule: parseOne_cases) (use Cons in \<open>simp_all add: parseOne_terminator\<close>)
qed

lemma flag_Parse_rest_append:
  "flag_Parse fm st args = Inr (st', r # rs) \<Longrightarrow>
   flag_Parse fm st (args @ xs) = Inr (st', r # rs @ xs)"
proof (induction args arbitrary: st)
  case Nil
  then show ?case by simp
next
  case (Cons s rest)
  show ?case
    by (cases fm st s rule: parseOne_cases) (use Cons in \<open>simp_all add: parseOne_terminator\<close>)
qed

lemma flag_Parse_done_append:
  "flag_Parse fm st args = Inr (st', []) \<Longrightarrow> length x < 2 \<or> x ! 0 \<noteq> CHR ''-'' \<Longrightarrow>
   flag_Parse fm st (args @ x # xs) = Inr (st', x # xs)"
proof (induction args arbitrary: st)
  case Nil
  then show ?case by (simp add: parseOne_nonflag)
next
  case (Cons s rest)
  show ?case
    by (cases fm st s rule: parseOne_cases)
       (use Cons in \<open>simp_all add: parseOne_terminator parseOne_nonflag\<close>)
qed

subsection \<open>The loop of jsonFilter.run\<close>

lemma run_loop_end: "iter_Next L iter = None \<Longrightarrow> run_loop L pre enc iter s = Some (NoError, s)"
  by (subst run_loop.simps) simp

lemma run_loop_error:
  "iter_Next L iter = Some (VError err, iter') \<Longrightarrow>
   run_loop L pre enc iter s = Some (ExitStatus 1, Printf pre (''query error: '' @ err) s)"
  by (subst run_loop.simps) simp

lemma run_loop_value:
  "iter_Next L iter = Some (v, iter') \<Longrightarrow> \<not> is_error v \<Longrightarrow>
   Encode L enc v (Stdout s) = (Inr u, enc', w') \<Longrightarrow>
   run_loop L pre enc iter s = run_loop L pre enc' iter' (s\<lparr>Stdout := w'\<rparr>)"
  by (subst run_loop.simps) (cases v; simp)

lemma run_loop_encode_failed:
  "iter_Next L iter = Some (v, iter') \<Longrightarrow> \<not> is_error v \<Longrightarrow>
   Encode L enc v (Stdout s) = (Inl e, enc', w') \<Longrightarrow>
   run_loop L pre enc iter s =
     Some (ExitStatus 1, Printf pre (''encoding error: '' @ e) (s\<lparr>Stdout := w'\<rparr>))"
  by (subst run_loop.simps) (cases v; simp)

text \<open>Values that are no errors and encode without error take the loop to the rest of the iterator.\<close>

lemma run_loop_yields:
  "yields L iter vs = Some iter' \<Longrightarrow> list_all (\<lambda>v. \<not> is_error v) vs \<Longrightarrow>
   encode_all L enc vs (Stdout s) = (Inr u, enc', w') \<Longrightarrow>
   run_loop L pre enc iter s = run_loop L pre enc' iter' (s\<lparr>Stdout := w'\<rparr>)"
proof (induction vs arbitrary: iter enc s)
  case Nil
  then show ?case by auto
next
  case (Cons v vs)
  from Cons.prems(1) obtain it1 where nx: "iter_Next L iter = Some (v, it1)"
    and ys: "yields L it1 vs = Some iter'"
    by (auto split: option.splits if_splits)
  from Cons.prems(3) obtain enc1 w1 where e1: "Encode L enc v (Stdout s) = (Inr (), enc1, w1)"
    and ea: "encode_all L enc1 vs w1 = (Inr u, enc', w')"
    by (auto split: prod.splits sum.splits)
  from Cons.prems(2) have ne: "\<not> is_error v" and rest: "list_all (\<lambda>v. \<not> is_error v) vs"
    by simp_all
  have "run_loop L pre enc iter s = run_loop L pre enc1 it1 (s\<lparr>Stdout := w1\<rparr>)"
    using nx ne e1 by (rule run_loop_value)
  also have "\<dots> = run_loop L pre enc' iter' (s\<lparr>Stdout := w1, Stdout := w'\<rparr>)"
    using Cons.IH[OF ys rest, of enc1 "s\<lparr>Stdout := w1\<rparr>"] ea by simp
  finally show ?case by simp
qed

text \<open>The loop makes no engine call.\<close>

lemma run_loop_calls:
  assumes "run_loop L pre enc iter s = Some y"
  shows "calls (snd y) = calls s"
  by (rule run_loop.raw_induct[where P = "\<lambda>L pre enc iter s y. calls (snd y) = calls s", OF _ assms])
     (auto simp: Printf_def split: option.splits prod.splits val.splits sum.splits)

text \<open>
  On an iterator that yields a string again and again, the loop in plain mode, on a
  standard output that takes every write, does not return.
\<close>

lemma run_loop_not_returning:
  assumes "run_loop L pre enc iter s = Some y"
  shows "\<not> ((\<forall>it. iter_Next L it = Some (VString str, it)) \<and>
            (\<exists>wr. enc = PlainEncoder wr) \<and> (\<exists>buf. Stdout s = Writer buf None))"
  by (rule run_loop.raw_induct[where P = "\<lambda>L pre enc iter s y.
        \<not> ((\<forall>it. iter_Next L it = Some (VString str, it)) \<and>
            (\<exists>wr. enc = PlainEncoder wr) \<and> (\<exists>buf. Stdout s = Writer buf None))", OF _ assms])
     (fastforce simp: plain_Encode_def split: if_splits)

lemma run_loop_forever:
  assumes "\<And>it. iter_Next L it = Some (VString str, it)"
    and "Stdout s = Writer buf None"
  shows "run_loop L pre (PlainEncoder written) iter s = None"
proof (cases "run_loop L pre (PlainEncoder written) iter s")
  case None
  then show ?thesis .
next
  case (Some y)
  from run_loop_not_returning[OF Some, of str] assms show ?thesis by blast
qed

subsection \<open>The dispatch and the arguments of query\<close>

lemma HasPrefix_at: "HasPrefix (CHR ''@'' # name) ''@''"
  by (simp add: HasPrefix_def)

lemma TrimPrefix_at: "TrimPrefix (CHR ''@'' # name) ''@'' = name"
  by (simp add: TrimPrefix_def HasPrefix_def)

lemma exec_at:
  "exec L p h ((CHR ''@'' # name) # args) s =
     (if name = [] \<or> (Kind (Env h name) \<noteq> String \<and> Kind (Env h name) \<noteq> Indexed)
      then defaultExec p h ((CHR ''@'' # name) # args) s
      else filterJSON L p h (Some name) (''query'' # args) s)"
  by (simp add: exec_def HasPrefix_at TrimPrefix_at Let_def)

lemma exec_query: "exec L p h (''query'' # args) s = filterJSON L p h None (''query'' # args) s"
  by (simp add: exec_def)

lemma source_reader_stdin: "source_reader h ''-'' = Stdin h"
  by (simp add: source_reader_def)

text \<open>\<open>filterJSON\<close> after its flags are parsed: the switch on the number of arguments.\<close>

lemma filterJSON_parsed:
  assumes "flag_Parse query_flags (False, new_filter ''query: '') flag_args = Inr ((rawInput, flt), rest)"
  shows "filterJSON L p h forceVar (cmd # flag_args) s =
     (case (if rest = [] then [''.''] else rest) @ (case forceVar of None \<Rightarrow> [] | Some var \<Rightarrow> [var]) of
        [] \<Rightarrow> filter_reader L flt rawInput ''.'' (Stdin h) s
      | [a0] \<Rightarrow> filter_reader L flt rawInput a0 (Stdin h) s
      | [a0, a1] \<Rightarrow> filter_reader L flt rawInput a0 (source_reader h a1) s
      | _ \<Rightarrow> Some (ExitStatus 1, Printf ''query: '' ''too many argument to query: expected 0..2'' s))"
  using assms by (simp add: filterJSON_def source_reader_stdin split: option.splits list.splits)

subsection \<open>The query filter\<close>

lemma filterJSON_flag_error:
  assumes "flag_Parse query_flags (False, new_filter ''query: '') args = Inl e"
  shows "filterJSON L p h forceVar (cmd # args) s = Some (flag_failure ''query'' ''query: '' e s)"
  using assms by (simp add: filterJSON_def)

lemma filterJSON_forced:
  assumes "flag_Parse query_flags (False, new_filter ''query: '') args = Inr ((rawInput, flt), rest)"
  shows "filterJSON L p h (Some name) (cmd # args) s =
           filterJSON L p h None (cmd # args @ (if rest = [] then [''.'', name] else [name])) s"
proof (cases rest)
  case Nil
  have "flag_Parse query_flags (False, new_filter ''query: '') (args @ ''.'' # [name]) =
          Inr ((rawInput, flt), ''.'' # [name])"
    using assms Nil by (intro flag_Parse_done_append) simp_all
  then show ?thesis
    using Nil by (simp add: filterJSON_parsed[OF assms] filterJSON_parsed)
next
  case (Cons r rs)
  have "flag_Parse query_flags (False, new_filter ''query: '') (args @ [name]) =
          Inr ((rawInput, flt), r # rs @ [name])"
    using assms Cons by (intro flag_Parse_rest_append) simp
  then show ?thesis
    using Cons by (simp add: filterJSON_parsed[OF assms] filterJSON_parsed)
qed

lemma exec_event: "exec L p h (''event'' # args) s = filterEvent L p h (''event'' # args) s"
  by (simp add: exec_def)

lemma encoder_json: "json j \<Longrightarrow> encoder (j\<lparr>yaml := y\<rparr>) = JSONEncoder (pretty j)"
  by (simp add: encoder_def)

lemma run_json_yaml: "json j \<Longrightarrow> run L (j\<lparr>yaml := y\<rparr>) queryStr input s = run L j queryStr input s"
  by (simp add: run_def encoder_def Let_def split: sum.splits)

lemma decode_loop_json_yaml:
  "json j \<Longrightarrow> decode_loop L (j\<lparr>yaml := y\<rparr>) queryStr ds s = decode_loop L j queryStr ds s"
  by (induction L j queryStr ds s rule: decode_loop.induct)
     (simp_all add: run_json_yaml split: option.splits prod.splits ret.splits)

lemma run_parse_failed:
  "gojq_Parse L queryStr = Inl err \<Longrightarrow>
   run L j queryStr input s =
     Some (ExitStatus 1,
       s\<lparr>Stderr := Stderr s @ [Log (logger j) (''unable to parse query: '' @ err)],
         calls := calls s @ [CParse queryStr]\<rparr>)"
  by (simp add: run_def Printf_def)

lemma run_parsed:
  "gojq_Parse L queryStr = Inr query \<Longrightarrow>
   run L j queryStr input s =
     run_loop L (logger j) (encoder j) (query_Run L query input)
       (s\<lparr>calls := calls s @ [CParse queryStr, CRun queryStr input]\<rparr>)"
  by (simp add: run_def)

lemma run_calls:
  assumes "run L j queryStr input s = Some (r, s')"
  shows "calls s' = calls s @ CParse queryStr #
           (case gojq_Parse L queryStr of Inl e \<Rightarrow> [] | Inr query \<Rightarrow> [CRun queryStr input])"
proof (cases "gojq_Parse L queryStr")
  case (Inl e)
  with assms show ?thesis by (auto simp: run_parse_failed)
next
  case (Inr query)
  with assms show ?thesis using run_loop_calls by (fastforce simp: run_parsed)
qed

lemma run_NoError_calls:
  assumes "run L j queryStr input s = Some (NoError, s')"
  shows "calls s' = calls s @ [CParse queryStr, CRun queryStr input]"
proof (cases "gojq_Parse L queryStr")
  case (Inl e)
  with assms show ?thesis by (simp add: run_parse_failed)
next
  case (Inr query)
  with run_calls[OF assms] show ?thesis by simp
qed

lemma decode_loop_calls:
  "decode_loop L j queryStr (map Doc inputs) s = Some (NoError, s') \<Longrightarrow>
   calls s' = calls s @ concat (map (\<lambda>input. [CParse queryStr, CRun queryStr input]) inputs)"
proof (induction inputs arbitrary: s)
  case Nil
  then show ?case by simp
next
  case (Cons input inputs)
  from Cons.prems obtain s1 where r1: "run L j queryStr input s = Some (NoError, s1)"
    and rest: "decode_loop L j queryStr (map Doc inputs) s1 = Some (NoError, s')"
    by (auto split: option.splits prod.splits ret.splits)
  show ?case using Cons.IH[OF rest] run_NoError_calls[OF r1] by simp
qed

lemma compiles_append: "compiles (xs @ ys) = compiles xs + compiles ys"
  by (simp add: compiles_def)

lemma compiles_per_input:
  "compiles (concat (map (\<lambda>input. [CParse queryStr, CRun queryStr input]) inputs)) = length inputs"
  by (induction inputs) (simp_all add: compiles_def)

text \<open>
  The engine calls of the decoding loop, whatever it returns: one compilation for each
  document it has reached, followed by the run on that document when the query
  compiles; a loop that returns no error has reached every document.
\<close>

lemma decode_loop_calls_any:
  "decode_loop L j queryStr ds s = Some (r, s') \<Longrightarrow>
   \<exists>inputs rest. ds = map Doc inputs @ rest \<and> (r = NoError \<longrightarrow> rest = []) \<and>
     calls s' = calls s @
       concat (map (\<lambda>input. CParse queryStr #
                 (case gojq_Parse L queryStr of Inl e \<Rightarrow> [] | Inr query \<Rightarrow> [CRun queryStr input])) inputs)"
proof (induction ds arbitrary: s)
  case Nil
  then show ?case by auto
next
  case (Cons d ds)
  show ?case
  proof (cases d)
    case (DecErr e)
    with Cons.prems have "r = ExitStatus 1" and "calls s' = calls s"
      by (auto simp: Printf_def)
    then show ?thesis
      by (intro exI[of _ "[]"] exI[of _ "d # ds"]) simp
  next
    case (Doc input)
    with Cons.prems obtain r1 s1 where r1: "run L j queryStr input s = Some (r1, s1)"
      by (auto split: option.splits)
    note c1 = run_calls[OF r1]
    show ?thesis
    proof (cases "r1 = NoError")
      case True
      with Cons.prems Doc r1 have "decode_loop L j queryStr ds s1 = Some (r, s')"
        by simp
      from Cons.IH[OF this] obtain inputs rest where
        "ds = map Doc inputs @ rest" "r = NoError \<longrightarrow> rest = []"
        "calls s' = calls s1 @
           concat (map (\<lambda>input. CParse queryStr #
                 (case gojq_Parse L queryStr of Inl e \<Rightarrow> [] | Inr query \<Rightarrow> [CRun queryStr input])) inputs)"
        by blast
      then show ?thesis
        using Doc c1 by (intro exI[of _ "input # inputs"] exI[of _ rest]) simp
    next
      case False
      with Cons.prems Doc r1 have "r = r1" "s' = s1"
        by (cases r1; simp)+
      then show ?thesis
        using Doc c1 False by (intro exI[of _ "[input]"] exI[of _ ds]) simp
    qed
  qed
qed

lemma compiles_reached:
  "compiles (concat (map (\<lambda>input. CParse queryStr # f input) inputs)) =
     length inputs + compiles (concat (map f inputs))"
  by (induction inputs) (simp_all add: compiles_def)

lemma compiles_runs:
  "compiles (concat (map (\<lambda>input. case x of Inl e \<Rightarrow> [] | Inr query \<Rightarrow> [CRun queryStr input]) inputs)) = 0"
  by (induction inputs) (simp_all add: compiles_def split: sum.splits)

text \<open>\<^verbatim>\<open>query -R\<close> from the reader on: the input is read, and there is one run on it.\<close>

lemma filter_reader_raw:
  "filter_reader L j True queryStr rd s =
     (case ioutil_ReadAll rd of
        Inl err \<Rightarrow> Some (ExitStatus 1, Printf (logger j) (''error reading input: '' @ err) s)
      | Inr data \<Rightarrow> run L j queryStr (VString data) s)"
  by (simp add: filter_reader_def)

subsection \<open>The plain encoder\<close>

lemma plain_Encode_reliable:
  "plain_Encode L written v (Writer buf None) =
     (case plain_str L v of
        Inl e \<Rightarrow> (Inl e, True, Writer (buf @ (if written then [CHR 0x0A] else [])) None)
      | Inr str \<Rightarrow> (Inr (), True, Writer (buf @ (if written then [CHR 0x0A] else []) @ str) None))"
  by (simp add: plain_Encode_def split: sum.splits)

lemma Join_Cons: "Join (x # xs) sep = x @ concat (map (\<lambda>y. sep @ y) xs)"
  by (induction xs arbitrary: x) simp_all

lemma encode_all_plain_written:
  "encode_all L (PlainEncoder True) (map VString strs) (Writer buf None) =
     (Inr (), PlainEncoder True, Writer (buf @ concat (map (\<lambda>y. [CHR 0x0A] @ y) strs)) None)"
  by (induction strs arbitrary: buf) (simp_all add: plain_Encode_def)

lemma encode_all_plain_strings:
  "encode_all L (PlainEncoder False) (map VString strs) (Writer buf None) =
     (Inr (), PlainEncoder (strs \<noteq> []), Writer (buf @ Join strs [CHR 0x0A]) None)"
proof (cases strs)
  case Nil
  then show ?thesis by simp
next
  case (Cons str rest)
  then show ?thesis
    by (simp add: plain_Encode_def encode_all_plain_written Join_Cons del: Join.simps)
qed

text \<open>One run in plain mode, on a query that yields strings: they are joined by newlines.\<close>

lemma run_plain_strings:
  assumes "gojq_Parse L queryStr = Inr query"
    and "\<not> json j" and "\<not> yaml j"
    and "Stdout s = Writer buf None"
    and "yields L (query_Run L query input) (map VString strs) = Some iter'"
    and "iter_Next L iter' = None"
  shows "run L j queryStr input s =
           Some (NoError,
             s\<lparr>Stdout := Writer (buf @ Join strs [CHR 0x0A]) None,
               calls := calls s @ [CParse queryStr, CRun queryStr input]\<rparr>)"
proof -
  let ?s1 = "s\<lparr>calls := calls s @ [CParse queryStr, CRun queryStr input]\<rparr>"
  let ?w = "Writer (buf @ Join strs [CHR 0x0A]) None"
  have enc: "encoder j = PlainEncoder False"
    using assms(2,3) by (simp add: encoder_def newPlainEncoder_def)
  have ne: "list_all (\<lambda>v. \<not> is_error v) (map VString strs)"
    by (simp add: list_all_iff)
  have ea: "encode_all L (encoder j) (map VString strs) (Stdout ?s1) =
              (Inr (), PlainEncoder (strs \<noteq> []), ?w)"
    using assms(4) by (simp add: enc encode_all_plain_strings)
  have "run L j queryStr input s = run_loop L (logger j) (encoder j) (query_Run L query input) ?s1"
    using assms(1) by (rule run_parsed)
  also have "\<dots> = run_loop L (logger j) (PlainEncoder (strs \<noteq> [])) iter' (?s1\<lparr>Stdout := ?w\<rparr>)"
    using assms(5) ne ea by (rule run_loop_yields)
  also have "\<dots> = Some (NoError, ?s1\<lparr>Stdout := ?w\<rparr>)"
    using assms(6) by (rule run_loop_end)
  finally show ?thesis by simp
qed

text \<open>
  Two documents in plain mode: the encoder is made anew in each run, so the strings of
  the second document follow those of the first with nothing in between.
\<close>

lemma plain_documents_run_together:
  assumes "gojq_Parse L queryStr = Inr query"
    and "\<not> json j" and "\<not> yaml j"
    and "Stdout s = Writer buf None"
    and "yields L (query_Run L query d1) (map VString strs1) = Some iter1"
    and "iter_Next L iter1 = None"
    and "yields L (query_Run L query d2) (map VString strs2) = Some iter2"
    and "iter_Next L iter2 = None"
  shows "decode_loop L j queryStr [Doc d1, Doc d2] s =
           Some (NoError,
             s\<lparr>Stdout := Writer (buf @ Join strs1 [CHR 0x0A] @ Join strs2 [CHR 0x0A]) None,
               calls := calls s @ [CParse queryStr, CRun queryStr d1, CParse queryStr, CRun queryStr d2]\<rparr>)"
proof -
  let ?s1 = "s\<lparr>Stdout := Writer (buf @ Join strs1 [CHR 0x0A]) None,
               calls := calls s @ [CParse queryStr, CRun queryStr d1]\<rparr>"
  have r1: "run L j queryStr d1 s = Some (NoError, ?s1)"
    using assms(1-6) by (rule run_plain_strings)
  have "Stdout ?s1 = Writer (buf @ Join strs1 [CHR 0x0A]) None"
    by simp
  with assms(1-3) have r2: "run L j queryStr d2 ?s1 =
      Some (NoError,
        ?s1\<lparr>Stdout := Writer ((buf @ Join strs1 [CHR 0x0A]) @ Join strs2 [CHR 0x0A]) None,
          calls := calls ?s1 @ [CParse queryStr, CRun queryStr d2]\<rparr>)"
    using assms(7,8) by (rule run_plain_strings)
  show ?thesis by (simp add: r1 r2)
qed

section \<open>The claims\<close>

subsection \<open>C1\<close>

text \<open>
  \<^bold>\<open>C1\<close>, as amended. The query string is compiled in \<^verbatim>\<open>jsonFilter.run\<close>, once in every
  run and before anything is queried or written: a run that returns has made exactly
  one \<^verbatim>\<open>gojq.Parse\<close> call, followed by one \<^verbatim>\<open>Query.Run\<close> call when the string
  compiles. A string that does not compile ends the run with status 1 and the message
  of the parse error, with no \<^verbatim>\<open>Query.Run\<close> call and nothing written to standard
  output.

  \<^verbatim>\<open>query -R\<close> whose input is read is exactly one run, on the raw input, whether the
  string compiles or not; when the input cannot be read it ends with status 1 before
  any compilation. \<^verbatim>\<open>event\<close> with at most one argument is exactly one run, on the
  event. \<^verbatim>\<open>query\<close> without \<^verbatim>\<open>-R\<close> makes one run for each document it reaches: a
  string that does not compile ends the command at the first document; whatever the
  command returns, it has compiled the string once for each document it has reached,
  each compilation followed by the run on that document when the string compiles; and
  a command that returns no error has reached every document of the stream.
  Nothing more is said here of a stream that holds no document.
\<close>

theorem C1_compile_per_input:
  "(run L j queryStr input s = Some (r, s') \<longrightarrow>
      calls s' = calls s @ CParse queryStr #
        (case gojq_Parse L queryStr of Inl e \<Rightarrow> [] | Inr query \<Rightarrow> [CRun queryStr input]) \<and>
      compiles (calls s') = compiles (calls s) + 1) \<and>
   (gojq_Parse L queryStr = Inl err \<longrightarrow>
      run L j queryStr input s =
        Some (ExitStatus 1,
          s\<lparr>Stderr := Stderr s @ [Log (logger j) (''unable to parse query: '' @ err)],
            calls := calls s @ [CParse queryStr]\<rparr>)) \<and>
   (ioutil_ReadAll rd = Inr data \<longrightarrow>
      filter_reader L j True queryStr rd s = run L j queryStr (VString data) s) \<and>
   (ioutil_ReadAll rd = Inl rerr \<longrightarrow>
      filter_reader L j True queryStr rd s =
        Some (ExitStatus 1, s\<lparr>Stderr := Stderr s @ [Log (logger j) (''error reading input: '' @ rerr)]\<rparr>)) \<and>
   (gojq_Parse L queryStr = Inl err \<and> ioutil_ReadAll rd = Inr data \<longrightarrow>
      filter_reader L j True queryStr rd s =
        Some (ExitStatus 1,
          s\<lparr>Stderr := Stderr s @ [Log (logger j) (''unable to parse query: '' @ err)],
            calls := calls s @ [CParse queryStr]\<rparr>)) \<and>
   (gojq_Parse L queryStr = Inl err \<and> yaml_Decode L rd = Doc input # ds \<longrightarrow>
      filter_reader L j False queryStr rd s =
        Some (ExitStatus 1,
          s\<lparr>Stderr := Stderr s @ [Log (logger j) (''unable to parse query: '' @ err)],
            calls := calls s @ [CParse queryStr]\<rparr>)) \<and>
   (yaml_Decode L rd = map Doc inputs \<and> filter_reader L j False queryStr rd s = Some (NoError, s') \<longrightarrow>
      calls s' = calls s @ concat (map (\<lambda>input. [CParse queryStr, CRun queryStr input]) inputs) \<and>
      compiles (calls s') = compiles (calls s) + length inputs) \<and>
   (filter_reader L j False queryStr rd s = Some (r, s') \<longrightarrow>
      (\<exists>reached rest.
         yaml_Decode L rd = map Doc reached @ rest \<and> (r = NoError \<longrightarrow> rest = []) \<and>
         calls s' = calls s @
           concat (map (\<lambda>input. CParse queryStr #
              (case gojq_Parse L queryStr of Inl e \<Rightarrow> [] | Inr query \<Rightarrow> [CRun queryStr input])) reached) \<and>
         compiles (calls s') = compiles (calls s) + length reached)) \<and>
   (flag_Parse bind (new_filter ''event: '') args = Inr (flt, rest) \<and> length rest \<le> 1 \<longrightarrow>
      exec L p h (''event'' # args) s =
        run L flt (case rest of [] \<Rightarrow> ''.'' | q # qs \<Rightarrow> q) (VMap (event p)) s)"
proof (intro conjI impI)
  assume a: "run L j queryStr input s = Some (r, s')"
  from run_calls[OF a]
  show c: "calls s' = calls s @ CParse queryStr #
        (case gojq_Parse L queryStr of Inl e \<Rightarrow> [] | Inr query \<Rightarrow> [CRun queryStr input])" .
  show "compiles (calls s') = compiles (calls s) + 1"
    by (simp add: c compiles_def split: sum.splits)
next
  assume "gojq_Parse L queryStr = Inl err"
  then show "run L j queryStr input s =
        Some (ExitStatus 1,
          s\<lparr>Stderr := Stderr s @ [Log (logger j) (''unable to parse query: '' @ err)],
            calls := calls s @ [CParse queryStr]\<rparr>)"
    by (rule run_parse_failed)
next
  assume "ioutil_ReadAll rd = Inr data"
  then show "filter_reader L j True queryStr rd s = run L j queryStr (VString data) s"
    by (simp add: filter_reader_raw)
next
  assume "ioutil_ReadAll rd = Inl rerr"
  then show "filter_reader L j True queryStr rd s =
        Some (ExitStatus 1, s\<lparr>Stderr := Stderr s @ [Log (logger j) (''error reading input: '' @ rerr)]\<rparr>)"
    by (simp add: filter_reader_raw Printf_def)
next
  assume "gojq_Parse L queryStr = Inl err \<and> ioutil_ReadAll rd = Inr data"
  then show "filter_reader L j True queryStr rd s =
        Some (ExitStatus 1,
          s\<lparr>Stderr := Stderr s @ [Log (logger j) (''unable to parse query: '' @ err)],
            calls := calls s @ [CParse queryStr]\<rparr>)"
    by (simp add: filter_reader_def run_parse_failed)
next
  assume "gojq_Parse L queryStr = Inl err \<and> yaml_Decode L rd = Doc input # ds"
  then show "filter_reader L j False queryStr rd s =
        Some (ExitStatus 1,
          s\<lparr>Stderr := Stderr s @ [Log (logger j) (''unable to parse query: '' @ err)],
            calls := calls s @ [CParse queryStr]\<rparr>)"
    by (simp add: filter_reader_def run_parse_failed)
next
  assume a: "yaml_Decode L rd = map Doc inputs \<and> filter_reader L j False queryStr rd s = Some (NoError, s')"
  then have "decode_loop L j queryStr (map Doc inputs) s = Some (NoError, s')"
    by (auto simp: filter_reader_def)
  from decode_loop_calls[OF this]
  show c: "calls s' = calls s @ concat (map (\<lambda>input. [CParse queryStr, CRun queryStr input]) inputs)" .
  show "compiles (calls s') = compiles (calls s) + length inputs"
    by (simp add: c compiles_append compiles_per_input)
next
  assume "filter_reader L j False queryStr rd s = Some (r, s')"
  then have "decode_loop L j queryStr (yaml_Decode L rd) s = Some (r, s')"
    by (simp add: filter_reader_def)
  from decode_loop_calls_any[OF this] obtain reached rest where
    d: "yaml_Decode L rd = map Doc reached @ rest" and n: "r = NoError \<longrightarrow> rest = []"
    and c: "calls s' = calls s @
           concat (map (\<lambda>input. CParse queryStr #
              (case gojq_Parse L queryStr of Inl e \<Rightarrow> [] | Inr query \<Rightarrow> [CRun queryStr input])) reached)"
    by blast
  have "compiles (calls s') = compiles (calls s) + length reached"
    by (simp add: c compiles_append compiles_reached compiles_runs)
  with d n c show "\<exists>reached rest.
         yaml_Decode L rd = map Doc reached @ rest \<and> (r = NoError \<longrightarrow> rest = []) \<and>
         calls s' = calls s @
           concat (map (\<lambda>input. CParse queryStr #
              (case gojq_Parse L queryStr of Inl e \<Rightarrow> [] | Inr query \<Rightarrow> [CRun queryStr input])) reached) \<and>
         compiles (calls s') = compiles (calls s) + length reached"
    by blast
next
  assume "flag_Parse bind (new_filter ''event: '') args = Inr (flt, rest) \<and> length rest \<le> 1"
  then show "exec L p h (''event'' # args) s =
        run L flt (case rest of [] \<Rightarrow> ''.'' | q # qs \<Rightarrow> q) (VMap (event p)) s"
    by (cases rest) (auto simp: exec_event filterEvent_def)
qed

text \<open>
  The malformed query \<^verbatim>\<open>[\<close>: in one run, in \<^verbatim>\<open>query -R\<close> on the empty input, in
  \<^verbatim>\<open>query\<close> on the one document \<^verbatim>\<open>hello\<close> and in \<^verbatim>\<open>event\<close>. The query \<^verbatim>\<open>.\<close> in
  \<^verbatim>\<open>query -R\<close> on the input \<^verbatim>\<open>hello\<close>: one compilation and one run; on an input that
  cannot be read: status 1 and no compilation. And the query \<^verbatim>\<open>.\<close> on two documents:
  two compilations, each followed by its run.
\<close>

theorem C1_compile_per_input_witness:
  "gojq_Parse sample_lib ''['' = Inl ''unexpected token'' \<and>
   run sample_lib (new_filter ''query: '') ''['' (VString ''hello'') fresh_io =
     Some (ExitStatus 1,
       \<lparr>Stdout = Writer [] None,
        Stderr = [Log ''query: '' ''unable to parse query: unexpected token''],
        calls = [CParse ''['']\<rparr>) \<and>
   compiles [CParse ''[''] = compiles [] + 1 \<and>
   ioutil_ReadAll (Reader ''hello'' None) = Inr ''hello'' \<and>
   filter_reader sample_lib (new_filter ''query: '') True ''.'' (Reader ''hello'' None) fresh_io =
     Some (NoError,
       \<lparr>Stdout = Writer ''hello'' None, Stderr = [],
        calls = [CParse ''.'', CRun ''.'' (VString ''hello'')]\<rparr>) \<and>
   compiles [CParse ''.'', CRun ''.'' (VString ''hello'')] = compiles [] + 1 \<and>
   ioutil_ReadAll (Reader [] (Some ''closed'')) = Inl ''closed'' \<and>
   filter_reader sample_lib (new_filter ''query: '') True ''.'' (Reader [] (Some ''closed'')) fresh_io =
     Some (ExitStatus 1,
       \<lparr>Stdout = Writer [] None, Stderr = [Log ''query: '' ''error reading input: closed''],
        calls = []\<rparr>) \<and>
   ioutil_ReadAll (Reader [] None) = Inr [] \<and>
   filter_reader sample_lib (new_filter ''query: '') True ''['' (Reader [] None) fresh_io =
     Some (ExitStatus 1,
       \<lparr>Stdout = Writer [] None,
        Stderr = [Log ''query: '' ''unable to parse query: unexpected token''],
        calls = [CParse ''['']\<rparr>) \<and>
   yaml_Decode sample_lib (Reader ''hello'' None) = [Doc (VString ''hello'')] \<and>
   filter_reader sample_lib (new_filter ''query: '') False ''['' (Reader ''hello'' None) fresh_io =
     Some (ExitStatus 1,
       \<lparr>Stdout = Writer [] None,
        Stderr = [Log ''query: '' ''unable to parse query: unexpected token''],
        calls = [CParse ''['']\<rparr>) \<and>
   flag_Parse bind (new_filter ''event: '') [''[''] = Inr (new_filter ''event: '', [''['']) \<and>
   exec sample_lib sample_prog sample_ctx [''event'', ''[''] fresh_io =
     Some (ExitStatus 1,
       \<lparr>Stdout = Writer [] None,
        Stderr = [Log ''event: '' ''unable to parse query: unexpected token''],
        calls = [CParse ''['']\<rparr>) \<and>
   yaml_Decode sample_lib (Reader (''a'' @ [CHR 0x0A] @ ''---'' @ [CHR 0x0A] @ ''b'') None) =
     map Doc [VString ''a'', VString ''b''] \<and>
   filter_reader sample_lib (new_filter ''query: '') False ''.''
       (Reader (''a'' @ [CHR 0x0A] @ ''---'' @ [CHR 0x0A] @ ''b'') None) fresh_io =
     Some (NoError,
       \<lparr>Stdout = Writer ''ab'' None, Stderr = [],
        calls = [CParse ''.'', CRun ''.'' (VString ''a''), CParse ''.'', CRun ''.'' (VString ''b'')]\<rparr>) \<and>
   compiles [CParse ''.'', CRun ''.'' (VString ''a''), CParse ''.'', CRun ''.'' (VString ''b'')] =
     compiles [] + length [VString ''a'', VString ''b'']"
proof -
  let ?q = "new_filter ''query: ''"
  let ?two = "Reader (''a'' @ [CHR 0x0A] @ ''---'' @ [CHR 0x0A] @ ''b'') None"
  let ?s1 = "\<lparr>Stdout = Writer ''hello'' None, Stderr = [],
        calls = [CParse ''.'', CRun ''.'' (VString ''hello'')]\<rparr>"
  let ?s2 = "\<lparr>Stdout = Writer ''ab'' None, Stderr = [],
        calls = [CParse ''.'', CRun ''.'' (VString ''a''), CParse ''.'', CRun ''.'' (VString ''b'')]\<rparr>"
  let ?failed = "\<lambda>pre. Some (ExitStatus 1,
       fresh_io\<lparr>Stderr := Stderr fresh_io @ [Log pre (''unable to parse query: '' @ ''unexpected token'')],
         calls := calls fresh_io @ [CParse ''['']\<rparr>)"
  note T = C1_compile_per_input
  have h1: "gojq_Parse sample_lib ''['' = Inl ''unexpected token''"
    by (simp add: sample_lib_def)
  have h2: "ioutil_ReadAll (Reader [] None) = Inr []"
    and h2a: "ioutil_ReadAll (Reader ''hello'' None) = Inr ''hello''"
    and h2b: "ioutil_ReadAll (Reader [] (Some ''closed'')) = Inl ''closed''"
    by simp_all
  have h3: "yaml_Decode sample_lib (Reader ''hello'' None) = [Doc (VString ''hello'')]"
    by (simp add: sample_lib_def)
  have h4: "flag_Parse bind (new_filter ''event: '') [''[''] = Inr (new_filter ''event: '', [''[''])"
    by (simp add: parseOne_def)
  have h5: "yaml_Decode sample_lib ?two = map Doc [VString ''a'', VString ''b'']"
    by (simp add: sample_lib_def)
  have h6: "filter_reader sample_lib ?q False ''.'' ?two fresh_io = Some (NoError, ?s2)"
    by code_simp
  have h7: "run sample_lib ?q ''.'' (VString ''hello'') fresh_io = Some (NoError, ?s1)"
    by code_simp
  have r2: "run sample_lib ?q ''['' (VString ''hello'') fresh_io = ?failed (logger ?q)"
    using h1 by (rule T[THEN conjunct2, THEN conjunct1, rule_format])
  have r1: "calls ?s1 = calls fresh_io @ CParse ''.'' #
        (case gojq_Parse sample_lib ''.'' of Inl e \<Rightarrow> [] | Inr query \<Rightarrow> [CRun ''.'' (VString ''hello'')]) \<and>
      compiles (calls ?s1) = compiles (calls fresh_io) + 1"
    using h7 by (rule T[THEN conjunct1, rule_format])
  have r3: "filter_reader sample_lib ?q True ''.'' (Reader ''hello'' None) fresh_io =
      run sample_lib ?q ''.'' (VString ''hello'') fresh_io"
    using h2a by (rule T[THEN conjunct2, THEN conjunct2, THEN conjunct1, rule_format])
  have r4: "filter_reader sample_lib ?q True ''.'' (Reader [] (Some ''closed'')) fresh_io =
      Some (ExitStatus 1,
        fresh_io\<lparr>Stderr := Stderr fresh_io @ [Log (logger ?q) (''error reading input: '' @ ''closed'')]\<rparr>)"
    using h2b by (rule T[THEN conjunct2, THEN conjunct2, THEN conjunct2, THEN conjunct1, rule_format])
  have r5: "filter_reader sample_lib ?q True ''['' (Reader [] None) fresh_io = ?failed (logger ?q)"
    using conjI[OF h1 h2]
    by (rule T[THEN conjunct2, THEN conjunct2, THEN conjunct2, THEN conjunct2, THEN conjunct1, rule_format])
  have r6: "filter_reader sample_lib ?q False ''['' (Reader ''hello'' None) fresh_io = ?failed (logger ?q)"
    using conjI[OF h1 h3]
    by (rule T[THEN conjunct2, THEN conjunct2, THEN conjunct2, THEN conjunct2, THEN conjunct2,
          THEN conjunct1, rule_format])
  have r7: "calls ?s2 = calls fresh_io @
              concat (map (\<lambda>input. [CParse ''.'', CRun ''.'' input]) [VString ''a'', VString ''b'']) \<and>
            compiles (calls ?s2) = compiles (calls fresh_io) + length [VString ''a'', VString ''b'']"
    using conjI[OF h5 h6]
    by (rule T[THEN conjunct2, THEN conjunct2, THEN conjunct2, THEN conjunct2, THEN conjunct2,
          THEN conjunct2, THEN conjunct1, rule_format])
  have r8: "\<exists>reached rest.
         yaml_Decode sample_lib ?two = map Doc reached @ rest \<and> (NoError = NoError \<longrightarrow> rest = []) \<and>
         calls ?s2 = calls fresh_io @
           concat (map (\<lambda>input. CParse ''.'' #
              (case gojq_Parse sample_lib ''.'' of Inl e \<Rightarrow> [] | Inr query \<Rightarrow> [CRun ''.'' input])) reached) \<and>
         compiles (calls ?s2) = compiles (calls fresh_io) + length reached"
    using h6
    by (rule T[THEN conjunct2, THEN conjunct2, THEN conjunct2, THEN conjunct2, THEN conjunct2,
          THEN conjunct2, THEN conjunct2, THEN conjunct1, rule_format])
  have "length [''[''] \<le> (1::nat)" by simp
  with h4 have "flag_Parse bind (new_filter ''event: '') [''[''] = Inr (new_filter ''event: '', [''['']) \<and>
      length [''[''] \<le> (1::nat)" ..
  then have r9: "exec sample_lib sample_prog sample_ctx (''event'' # [''['']) fresh_io =
      run sample_lib (new_filter ''event: '') (case [''[''] of [] \<Rightarrow> ''.'' | q # qs \<Rightarrow> q)
        (VMap (event sample_prog)) fresh_io"
    by (rule T[THEN conjunct2, THEN conjunct2, THEN conjunct2, THEN conjunct2, THEN conjunct2,
          THEN conjunct2, THEN conjunct2, THEN conjunct2, rule_format])
  have r10: "run sample_lib (new_filter ''event: '') ''['' (VMap (event sample_prog)) fresh_io =
      ?failed (logger (new_filter ''event: ''))"
    using h1 by (rule T[THEN conjunct2, THEN conjunct1, rule_format])
  show ?thesis
    using h1 h2 h2a h2b h3 h4 h5 h6 r1 r7 r8
    by (simp add: r2 r3 h7 r4 r5 r6 r9 r10) (simp add: fresh_io_def new_filter_def compiles_def)
qed

text \<open>
  Against \<^bold>\<open>C1\<close> as it is stated: \<^verbatim>\<open>query '[' nothing\<close>, where the variable is not set
  and the input is empty, compiles nothing, reports nothing and returns no error,
  though the query is malformed; \<^verbatim>\<open>query . docs\<close> on two documents compiles the
  query twice.
\<close>

theorem C1_once_per_invocation_counterexample:
  "gojq_Parse sample_lib ''['' = Inl ''unexpected token'' \<and>
   exec sample_lib sample_prog sample_ctx [''query'', ''['', ''nothing''] fresh_io = Some (NoError, fresh_io) \<and>
   exec sample_lib sample_prog sample_ctx [''query'', ''.'', ''docs''] fresh_io =
     Some (NoError,
       \<lparr>Stdout = Writer ''ab'' None, Stderr = [],
        calls = [CParse ''.'', CRun ''.'' (VString ''a''), CParse ''.'', CRun ''.'' (VString ''b'')]\<rparr>) \<and>
   compiles [CParse ''.'', CRun ''.'' (VString ''a''), CParse ''.'', CRun ''.'' (VString ''b'')] = 2"
proof -
  have 1: "gojq_Parse sample_lib ''['' = Inl ''unexpected token''"
    by (simp add: sample_lib_def)
  have 2: "exec sample_lib sample_prog sample_ctx [''query'', ''['', ''nothing''] fresh_io = Some (NoError, fresh_io)"
    by code_simp
  have 3: "exec sample_lib sample_prog sample_ctx [''query'', ''.'', ''docs''] fresh_io =
     Some (NoError,
       \<lparr>Stdout = Writer ''ab'' None, Stderr = [],
        calls = [CParse ''.'', CRun ''.'' (VString ''a''), CParse ''.'', CRun ''.'' (VString ''b'')]\<rparr>)"
    by code_simp
  have 4: "compiles [CParse ''.'', CRun ''.'' (VString ''a''), CParse ''.'', CRun ''.'' (VString ''b'')] = 2"
    by (simp add: compiles_def)
  show ?thesis using 1 2 3 4 by simp
qed

subsection \<open>C2\<close>

text \<open>
  \<^bold>\<open>C2.\<close> The claim is that in plain mode every output after the first of a \<^verbatim>\<open>query\<close>
  command follows a newline, across all documents of the input. The plain encoder is
  made in \<^verbatim>\<open>jsonFilter.run\<close>, once for every document, and its \<^verbatim>\<open>written\<close> starts at
  false in each: \<^verbatim>\<open>query . docs\<close>, on the two documents \<^verbatim>\<open>a\<close> and \<^verbatim>\<open>b\<close>, writes
  \<^verbatim>\<open>ab\<close>, with no newline between the two outputs.
\<close>

theorem C2_documents_run_together:
  "exec sample_lib sample_prog sample_ctx [''query'', ''.'', ''docs''] fresh_io =
     Some (NoError,
       \<lparr>Stdout = Writer ''ab'' None, Stderr = [],
        calls = [CParse ''.'', CRun ''.'' (VString ''a''), CParse ''.'', CRun ''.'' (VString ''b'')]\<rparr>)"
proof -
  have p: "flag_Parse query_flags (False, new_filter ''query: '') [''.'', ''docs''] =
     Inr ((False, new_filter ''query: ''), [''.'', ''docs''])"
    by (simp add: parseOne_def)
  have d: "yaml_Decode sample_lib (source_reader sample_ctx ''docs'') = [Doc (VString ''a''), Doc (VString ''b'')]"
    by (simp add: sample_lib_def sample_ctx_def source_reader_def strings_NewReader_def)
  have "decode_loop sample_lib (new_filter ''query: '') ''.'' [Doc (VString ''a''), Doc (VString ''b'')] fresh_io =
           Some (NoError,
             fresh_io\<lparr>Stdout := Writer ([] @ Join [''a''] [CHR 0x0A] @ Join [''b''] [CHR 0x0A]) None,
               calls := calls fresh_io @ [CParse ''.'', CRun ''.'' (VString ''a''), CParse ''.'', CRun ''.'' (VString ''b'')]\<rparr>)"
    by (rule plain_documents_run_together[where query = "\<lambda>v. [v]" and ?iter1.0 = "[]" and ?iter2.0 = "[]"])
       (simp_all add: sample_lib_def new_filter_def fresh_io_def list_Next_def)
  then show ?thesis
    by (simp add: exec_query filterJSON_parsed[OF p] filter_reader_def d fresh_io_def)
qed

subsection \<open>C3\<close>

text \<open>
  \<^bold>\<open>C3\<close>, as amended. For a non-empty \<open>name\<close> of a string or indexed variable, the
  command \<^verbatim>\<open>@name args...\<close> is the command \<^verbatim>\<open>query args... name\<close> when parsing the flags
  of \<open>args\<close> fails or leaves at least one argument, and the command
  \<^verbatim>\<open>query args... . name\<close> when it leaves none: the arguments are handed on unchanged,
  the query \<^verbatim>\<open>.\<close> is put in where they hold no query string, and the name comes last.
\<close>

theorem C3_at_as_query:
  assumes "name \<noteq> []"
    and "Kind (Env h name) = String \<or> Kind (Env h name) = Indexed"
  shows "exec L p h ((CHR ''@'' # name) # args) s =
           exec L p h (''query'' # args @
             (case flag_Parse query_flags (False, new_filter ''query: '') args of
                Inr (st, []) \<Rightarrow> [''.'', name]
              | _ \<Rightarrow> [name])) s"
proof (cases "flag_Parse query_flags (False, new_filter ''query: '') args")
  case (Inl e)
  then have "flag_Parse query_flags (False, new_filter ''query: '') (args @ [name]) = Inl e"
    by (rule flag_Parse_error_append)
  with Inl assms show ?thesis
    by (auto simp: exec_at exec_query filterJSON_flag_error)
next
  case (Inr res)
  obtain rawInput flt rest where res: "res = ((rawInput, flt), rest)"
    by (metis surj_pair)
  from Inr res have p: "flag_Parse query_flags (False, new_filter ''query: '') args = Inr ((rawInput, flt), rest)"
    by simp
  show ?thesis
    using assms filterJSON_forced[OF p, of L p h name "''query''" s] p
    by (cases rest) (auto simp: exec_at exec_query)
qed

text \<open>
  \<^verbatim>\<open>@v .[]\<close> is \<^verbatim>\<open>query .[] v\<close>; \<^verbatim>\<open>@v -j\<close> is \<^verbatim>\<open>query -j . v\<close>; \<^verbatim>\<open>@v -x\<close>, with a flag
  that is not defined, is \<^verbatim>\<open>query -x v\<close>.
\<close>

theorem C3_at_as_query_witness:
  "''v'' \<noteq> [] \<and> Kind (Env sample_ctx ''v'') = String \<and>
   exec sample_lib sample_prog sample_ctx [''@v'', ''.[]''] fresh_io =
     exec sample_lib sample_prog sample_ctx [''query'', ''.[]'', ''v''] fresh_io \<and>
   exec sample_lib sample_prog sample_ctx [''@v'', ''-j''] fresh_io =
     exec sample_lib sample_prog sample_ctx [''query'', ''-j'', ''.'', ''v''] fresh_io \<and>
   exec sample_lib sample_prog sample_ctx [''@v'', ''-x''] fresh_io =
     exec sample_lib sample_prog sample_ctx [''query'', ''-x'', ''v''] fresh_io"
proof -
  have k: "Kind (Env sample_ctx ''v'') = String \<or> Kind (Env sample_ctx ''v'') = Indexed"
    by (simp add: sample_ctx_def)
  have n: "''v'' \<noteq> []" by simp
  have p1: "flag_Parse query_flags (False, new_filter ''query: '') [''.[]''] =
              Inr ((False, new_filter ''query: ''), [''.[]''])"
    by (simp add: parseOne_def)
  have p2: "flag_Parse query_flags (False, new_filter ''query: '') [''-j''] =
              Inr ((False, (new_filter ''query: '')\<lparr>json := True\<rparr>), [])"
    by (simp add: parseOne_def query_flags_def bind_def split_value_def new_filter_def)
  have p3: "flag_Parse query_flags (False, new_filter ''query: '') [''-x''] = Inl (NotDefined ''x'')"
    by (simp add: parseOne_def query_flags_def bind_def split_value_def)
  have k0: "Kind (Env sample_ctx ''v'') = String"
    by (simp add: sample_ctx_def)
  show ?thesis
    using k0
      C3_at_as_query[OF n k, of sample_lib sample_prog "[''.[]'']" fresh_io, unfolded p1]
      C3_at_as_query[OF n k, of sample_lib sample_prog "[''-j'']" fresh_io, unfolded p2]
      C3_at_as_query[OF n k, of sample_lib sample_prog "[''-x'']" fresh_io, unfolded p3]
    by simp
qed

text \<open>
  Against \<^bold>\<open>C3\<close> as it is stated: \<^verbatim>\<open>@v\<close> queries the variable with \<^verbatim>\<open>.\<close> and writes
  \<^verbatim>\<open>hello\<close>, while \<^verbatim>\<open>query v\<close> takes \<^verbatim>\<open>v\<close> for the query string and reads the empty
  standard input. And a source given by the caller is not overridden: \<^verbatim>\<open>@v . -\<close> has
  three arguments and ends with status 1.
\<close>

theorem C3_at_as_query_counterexample:
  "exec sample_lib sample_prog sample_ctx [''@v''] fresh_io =
     Some (NoError,
       \<lparr>Stdout = Writer ''hello'' None, Stderr = [],
        calls = [CParse ''.'', CRun ''.'' (VString ''hello'')]\<rparr>) \<and>
   exec sample_lib sample_prog sample_ctx [''query'', ''v''] fresh_io = Some (NoError, fresh_io) \<and>
   exec sample_lib sample_prog sample_ctx [''@v''] fresh_io \<noteq>
     exec sample_lib sample_prog sample_ctx [''query'', ''v''] fresh_io \<and>
   exec sample_lib sample_prog sample_ctx [''@v'', ''.'', ''-''] fresh_io =
     Some (ExitStatus 1,
       \<lparr>Stdout = Writer [] None,
        Stderr = [Log ''query: '' ''too many argument to query: expected 0..2''],
        calls = []\<rparr>)"
proof -
  have 1: "exec sample_lib sample_prog sample_ctx [''@v''] fresh_io =
     Some (NoError,
       \<lparr>Stdout = Writer ''hello'' None, Stderr = [],
        calls = [CParse ''.'', CRun ''.'' (VString ''hello'')]\<rparr>)"
    by code_simp
  have 2: "exec sample_lib sample_prog sample_ctx [''query'', ''v''] fresh_io = Some (NoError, fresh_io)"
    by code_simp
  have 3: "exec sample_lib sample_prog sample_ctx [''@v'', ''.'', ''-''] fresh_io =
     Some (ExitStatus 1,
       \<lparr>Stdout = Writer [] None,
        Stderr = [Log ''query: '' ''too many argument to query: expected 0..2''],
        calls = []\<rparr>)"
    by code_simp
  show ?thesis unfolding 1 2 3 by (simp add: fresh_io_def)
qed

subsection \<open>C4\<close>

text \<open>
  \<^bold>\<open>C4.\<close> When the result sequence of a query starts with the values \<open>vs\<close>, none of
  them an error and each encoded without error, and goes on with an error value, then
  the run has written the encoding of \<open>vs\<close>, in this order, and nothing more, has
  reported the error and returns status 1, whatever the sequence holds after the
  error; and the decoding loop of \<^verbatim>\<open>query\<close> returns the same at once, whatever
  documents \<open>ds\<close> follow: they are neither compiled for, queried nor encoded.
\<close>

theorem C4_stop_at_first_error:
  assumes "gojq_Parse L queryStr = Inr query"
    and "yields L (query_Run L query input) vs = Some iter'"
    and "list_all (\<lambda>v. \<not> is_error v) vs"
    and "iter_Next L iter' = Some (VError err, iter'')"
    and "encode_all L (encoder j) vs (Stdout s) = (Inr (), enc', w')"
  shows "run L j queryStr input s =
           Some (ExitStatus 1,
             s\<lparr>Stdout := w',
               Stderr := Stderr s @ [Log (logger j) (''query error: '' @ err)],
               calls := calls s @ [CParse queryStr, CRun queryStr input]\<rparr>) \<and>
         decode_loop L j queryStr (Doc input # ds) s =
           Some (ExitStatus 1,
             s\<lparr>Stdout := w',
               Stderr := Stderr s @ [Log (logger j) (''query error: '' @ err)],
               calls := calls s @ [CParse queryStr, CRun queryStr input]\<rparr>)"
proof -
  let ?s1 = "s\<lparr>calls := calls s @ [CParse queryStr, CRun queryStr input]\<rparr>"
  have "run L j queryStr input s = run_loop L (logger j) (encoder j) (query_Run L query input) ?s1"
    using assms(1) by (rule run_parsed)
  also have "\<dots> = run_loop L (logger j) enc' iter' (?s1\<lparr>Stdout := w'\<rparr>)"
    using assms(2,3) by (rule run_loop_yields) (use assms(5) in simp)
  also have "\<dots> = Some (ExitStatus 1, Printf (logger j) (''query error: '' @ err) (?s1\<lparr>Stdout := w'\<rparr>))"
    using assms(4) by (rule run_loop_error)
  finally have r: "run L j queryStr input s =
           Some (ExitStatus 1,
             s\<lparr>Stdout := w',
               Stderr := Stderr s @ [Log (logger j) (''query error: '' @ err)],
               calls := calls s @ [CParse queryStr, CRun queryStr input]\<rparr>)"
    by (simp add: Printf_def)
  then show ?thesis by simp
qed

text \<open>
  The result sequence 1, error \<^verbatim>\<open>boom\<close>, 2 on the first of two documents: \<^verbatim>\<open>1\<close> is
  written, 2 is not, the second document is not reached, and the status is 1.
\<close>

theorem C4_stop_at_first_error_witness:
  "gojq_Parse boom_lib ''.'' = Inr (\<lambda>v. [v]) \<and>
   yields boom_lib (query_Run boom_lib (\<lambda>v. [v]) (VString ''a'')) [VInt 1] = Some [VError ''boom'', VInt 2] \<and>
   list_all (\<lambda>v. \<not> is_error v) [VInt 1] \<and>
   iter_Next boom_lib [VError ''boom'', VInt 2] = Some (VError ''boom'', [VInt 2]) \<and>
   encode_all boom_lib (encoder (new_filter ''query: '')) [VInt 1] (Stdout fresh_io) =
     (Inr (), PlainEncoder True, Writer ''1'' None) \<and>
   decode_loop boom_lib (new_filter ''query: '') ''.'' [Doc (VString ''a''), Doc (VString ''b'')] fresh_io =
     Some (ExitStatus 1,
       \<lparr>Stdout = Writer ''1'' None,
        Stderr = [Log ''query: '' ''query error: boom''],
        calls = [CParse ''.'', CRun ''.'' (VString ''a'')]\<rparr>)"
proof -
  have 1: "gojq_Parse boom_lib ''.'' = Inr (\<lambda>v. [v])"
    by (simp add: boom_lib_def sample_lib_def)
  have 2: "yields boom_lib (query_Run boom_lib (\<lambda>v. [v]) (VString ''a'')) [VInt 1] = Some [VError ''boom'', VInt 2]"
    by (simp add: boom_lib_def sample_lib_def list_Next_def)
  have 3: "list_all (\<lambda>v. \<not> is_error v) [VInt 1]"
    by simp
  have 4: "iter_Next boom_lib [VError ''boom'', VInt 2] = Some (VError ''boom'', [VInt 2])"
    by (simp add: boom_lib_def sample_lib_def list_Next_def)
  have 5: "encode_all boom_lib (encoder (new_filter ''query: '')) [VInt 1] (Stdout fresh_io) =
     (Inr (), PlainEncoder True, Writer ''1'' None)"
    by (simp add: boom_lib_def sample_lib_def encoder_def new_filter_def newPlainEncoder_def
        plain_Encode_def fresh_io_def char_of_def)
  show ?thesis
    using 1 2 3 4 5 C4_stop_at_first_error[OF 1 2 3 4 5, of "[Doc (VString ''b'')]"]
    by (simp add: fresh_io_def new_filter_def)
qed

subsection \<open>C5\<close>

text \<open>
  \<^bold>\<open>C5.\<close> A \<^verbatim>\<open>query\<close> command whose flags parse, by the arguments that are left: none
  is the query \<^verbatim>\<open>.\<close> on standard input; one is the query string, on standard input;
  two are the query string and the source, where \<^verbatim>\<open>-\<close> is standard input and any
  other source is the name of a variable looked up in the environment; more than two
  end the command with status 1 and a message, nothing else done.
\<close>

theorem C5_query_positionals:
  assumes "flag_Parse query_flags (False, new_filter ''query: '') flag_args = Inr ((rawInput, flt), pos)"
  shows "exec L p h (''query'' # flag_args) s =
     (case pos of
        [] \<Rightarrow> filter_reader L flt rawInput ''.'' (Stdin h) s
      | [queryStr] \<Rightarrow> filter_reader L flt rawInput queryStr (Stdin h) s
      | [queryStr, source] \<Rightarrow>
          filter_reader L flt rawInput queryStr
            (if source = ''-'' then Stdin h
             else strings_NewReader
                    (case Kind (Env h source) of
                       String \<Rightarrow> Str (Env h source)
                     | Indexed \<Rightarrow> Join (List (Env h source)) [CHR 0x0A]
                     | _ \<Rightarrow> [])) s
      | _ \<Rightarrow>
          Some (ExitStatus 1,
            s\<lparr>Stderr := Stderr s @ [Log ''query: '' ''too many argument to query: expected 0..2'']\<rparr>))"
  unfolding exec_query filterJSON_parsed[OF assms]
  by (simp add: source_reader_def Printf_def Let_def split: list.splits)

text \<open>
  \<^verbatim>\<open>query -j . v -\<close>: three arguments are left after the flag, and the status is 1.
  \<^verbatim>\<open>query . v\<close> queries the variable; \<^verbatim>\<open>query\<close> alone reads the empty standard input.
\<close>

theorem C5_query_positionals_witness:
  "flag_Parse query_flags (False, new_filter ''query: '') [''-j'', ''.'', ''v'', ''-''] =
     Inr ((False, (new_filter ''query: '')\<lparr>json := True\<rparr>), [''.'', ''v'', ''-'']) \<and>
   exec sample_lib sample_prog sample_ctx [''query'', ''-j'', ''.'', ''v'', ''-''] fresh_io =
     Some (ExitStatus 1,
       fresh_io\<lparr>Stderr := [Log ''query: '' ''too many argument to query: expected 0..2'']\<rparr>) \<and>
   flag_Parse query_flags (False, new_filter ''query: '') [''.'', ''v''] =
     Inr ((False, new_filter ''query: ''), [''.'', ''v'']) \<and>
   exec sample_lib sample_prog sample_ctx [''query'', ''.'', ''v''] fresh_io =
     Some (NoError,
       \<lparr>Stdout = Writer ''hello'' None, Stderr = [],
        calls = [CParse ''.'', CRun ''.'' (VString ''hello'')]\<rparr>) \<and>
   flag_Parse query_flags (False, new_filter ''query: '') [] = Inr ((False, new_filter ''query: ''), []) \<and>
   exec sample_lib sample_prog sample_ctx [''query''] fresh_io = Some (NoError, fresh_io)"
proof -
  have p: "flag_Parse query_flags (False, new_filter ''query: '') [''-j'', ''.'', ''v'', ''-''] =
     Inr ((False, (new_filter ''query: '')\<lparr>json := True\<rparr>), [''.'', ''v'', ''-''])"
    by (simp add: parseOne_def query_flags_def bind_def split_value_def new_filter_def)
  have p2: "flag_Parse query_flags (False, new_filter ''query: '') [''.'', ''v''] =
     Inr ((False, new_filter ''query: ''), [''.'', ''v''])"
    by (simp add: parseOne_def)
  have p0: "flag_Parse query_flags (False, new_filter ''query: '') [] = Inr ((False, new_filter ''query: ''), [])"
    by simp
  have k: "Kind (Env sample_ctx ''v'') = String" and v: "Str (Env sample_ctx ''v'') = ''hello''"
    and i: "Stdin sample_ctx = Reader [] None"
    by (simp_all add: sample_ctx_def nullStream_def)
  have e2: "filter_reader sample_lib (new_filter ''query: '') False ''.'' (strings_NewReader ''hello'') fresh_io =
     Some (NoError,
       \<lparr>Stdout = Writer ''hello'' None, Stderr = [],
        calls = [CParse ''.'', CRun ''.'' (VString ''hello'')]\<rparr>)"
    by code_simp
  have e0: "filter_reader sample_lib (new_filter ''query: '') False ''.'' (Reader [] None) fresh_io =
     Some (NoError, fresh_io)"
    by code_simp
  show ?thesis
    using p p2 p0
      C5_query_positionals[OF p, of sample_lib sample_prog sample_ctx fresh_io]
      C5_query_positionals[OF p2, of sample_lib sample_prog sample_ctx fresh_io]
      C5_query_positionals[OF p0, of sample_lib sample_prog sample_ctx fresh_io]
    by (simp add: k v i e2 e0) (simp add: fresh_io_def)
qed

subsection \<open>C6\<close>

text \<open>
  \<^bold>\<open>C6.\<close> With neither \<^verbatim>\<open>json\<close> nor \<^verbatim>\<open>yaml\<close> set the encoder is the plain one, whatever
  \<^verbatim>\<open>pretty\<close> is. On a standard output that takes every write, it writes a newline
  first if it has written before, and then: for a map and for a slice, what
  \<^verbatim>\<open>json.Marshal\<close> gives (compact JSON); for a string, the string itself; for a float
  \<open>f\<close>, \<^verbatim>\<open>strconv.FormatFloat(f, 'f', -1, 64)\<close>, the format without exponent and with
  the fewest digits that give back \<open>f\<close>; for every other value, \<^verbatim>\<open>fmt.Sprint\<close> of it.
\<close>

theorem C6_plain_rendering:
  "(\<not> json j \<and> \<not> yaml j \<longrightarrow> encoder j = PlainEncoder False) \<and>
   (json_Marshal L (VMap m) = Inr js \<longrightarrow>
      Encode L (PlainEncoder written) (VMap m) (Writer buf None) =
        (Inr (), PlainEncoder True, Writer (buf @ (if written then [CHR 0x0A] else []) @ js) None)) \<and>
   (json_Marshal L (VSlice xs) = Inr js \<longrightarrow>
      Encode L (PlainEncoder written) (VSlice xs) (Writer buf None) =
        (Inr (), PlainEncoder True, Writer (buf @ (if written then [CHR 0x0A] else []) @ js) None)) \<and>
   Encode L (PlainEncoder written) (VString str) (Writer buf None) =
     (Inr (), PlainEncoder True, Writer (buf @ (if written then [CHR 0x0A] else []) @ str) None) \<and>
   Encode L (PlainEncoder written) (VFloat f) (Writer buf None) =
     (Inr (), PlainEncoder True,
      Writer (buf @ (if written then [CHR 0x0A] else []) @ strconv_FormatFloat L f (CHR ''f'') (- 1) 64) None) \<and>
   (v = VNil \<or> v = VBool b \<or> v = VInt n \<or> v = VOther t \<longrightarrow>
      Encode L (PlainEncoder written) v (Writer buf None) =
        (Inr (), PlainEncoder True, Writer (buf @ (if written then [CHR 0x0A] else []) @ fmt_Sprint L v) None))"
  by (auto simp: plain_Encode_reliable encoder_def newPlainEncoder_def)

text \<open>
  With \<^verbatim>\<open>pretty\<close> set: the map \<^verbatim>\<open>{"a":1}\<close> and the slice \<^verbatim>\<open>[1,2]\<close> are written as
  compact JSON, the string \<^verbatim>\<open>foo\<close> unquoted, the float 1.5 as \<^verbatim>\<open>1.5\<close> after a newline,
  and \<^verbatim>\<open>true\<close> as \<^verbatim>\<open>fmt.Sprint\<close> prints it.
\<close>

theorem C6_plain_rendering_witness:
  "encoder ((new_filter ''query: '')\<lparr>pretty := True\<rparr>) = PlainEncoder False \<and>
   Encode sample_lib (PlainEncoder False) (VMap [(''a'', VInt 1)]) (Writer [] None) =
     (Inr (), PlainEncoder True, Writer (''{'' @ [CHR 0x22] @ ''a'' @ [CHR 0x22] @ '':1}'') None) \<and>
   Encode sample_lib (PlainEncoder True) (VSlice [VInt 1, VInt 2]) (Writer ''foo'' None) =
     (Inr (), PlainEncoder True, Writer (''foo'' @ [CHR 0x0A] @ ''[1,2]'') None) \<and>
   Encode sample_lib (PlainEncoder False) (VString ''foo'') (Writer [] None) =
     (Inr (), PlainEncoder True, Writer ''foo'' None) \<and>
   Encode sample_lib (PlainEncoder True) (VFloat 0x3FF8000000000000) (Writer ''foo'' None) =
     (Inr (), PlainEncoder True, Writer (''foo'' @ [CHR 0x0A] @ ''1.5'') None) \<and>
   Encode sample_lib (PlainEncoder False) (VBool True) (Writer [] None) =
     (Inr (), PlainEncoder True, Writer ''true'' None)"
  using
    C6_plain_rendering[where j = "(new_filter ''query: '')\<lparr>pretty := True\<rparr>" and L = sample_lib
      and m = "[(''a'', VInt 1)]" and js = "''{'' @ [CHR 0x22] @ ''a'' @ [CHR 0x22] @ '':1}''"
      and written = False and buf = "[]" and str = "''foo''" and v = "VBool True" and b = True]
    C6_plain_rendering[where L = sample_lib and written = True and buf = "''foo''"
      and xs = "[VInt 1, VInt 2]" and js = "''[1,2]''" and f = "0x3FF8000000000000"]
  by (simp add: new_filter_def sample_lib_def)

subsection \<open>C7\<close>

text \<open>
  \<^bold>\<open>C7.\<close> A command whose name starts with \<^verbatim>\<open>@\<close> goes to the default exec handler, as
  any external command does, when the name is \<^verbatim>\<open>@\<close> alone, when the variable named
  after the \<^verbatim>\<open>@\<close> is not set, and when its kind is neither string nor indexed.
\<close>

theorem C7_at_falls_through:
  assumes "name = [] \<or> Kind (Env h name) = Unset \<or>
           (Kind (Env h name) \<noteq> String \<and> Kind (Env h name) \<noteq> Indexed)"
  shows "exec L p h ((CHR ''@'' # name) # args) s = defaultExec p h ((CHR ''@'' # name) # args) s"
  using assms by (auto simp: exec_at)

text \<open>\<^verbatim>\<open>@assoc .\<close> with an associative variable, \<^verbatim>\<open>@ .\<close>, and \<^verbatim>\<open>@nothing\<close> with no such variable.\<close>

theorem C7_at_falls_through_witness:
  "Kind (Env sample_ctx ''assoc'') \<noteq> String \<and> Kind (Env sample_ctx ''assoc'') \<noteq> Indexed \<and>
   exec sample_lib sample_prog sample_ctx [''@assoc'', ''.''] fresh_io = Some (ExitStatus 127, fresh_io) \<and>
   exec sample_lib sample_prog sample_ctx [''@'', ''.''] fresh_io = Some (ExitStatus 127, fresh_io) \<and>
   exec sample_lib sample_prog sample_ctx [''@nothing''] fresh_io = Some (ExitStatus 127, fresh_io)"
  using C7_at_falls_through[of "''assoc''" sample_ctx sample_lib sample_prog "[''.'']" fresh_io]
    C7_at_falls_through[of "[]" sample_ctx sample_lib sample_prog "[''.'']" fresh_io]
    C7_at_falls_through[of "''nothing''" sample_ctx sample_lib sample_prog "[]" fresh_io]
  by (simp add: sample_ctx_def sample_prog_def)

subsection \<open>C8\<close>

text \<open>
  \<^bold>\<open>C8.\<close> A \<^verbatim>\<open>query\<close> command with a query string and a source other than \<^verbatim>\<open>-\<close>
  reads, as its input, the value of the variable of that name: a string variable gives
  its string, an indexed variable its elements joined by newlines, and a variable that
  is not set or of any other kind gives the empty string. No case is an error of its
  own: the command goes on as it does on any input.
\<close>

theorem C8_variable_source:
  assumes "flag_Parse query_flags (False, new_filter ''query: '') flag_args =
             Inr ((rawInput, flt), [queryStr, source])"
    and "source \<noteq> ''-''"
  shows "exec L p h (''query'' # flag_args) s =
           filter_reader L flt rawInput queryStr
             (strings_NewReader
                (if Kind (Env h source) = String then Str (Env h source)
                 else if Kind (Env h source) = Indexed then Join (List (Env h source)) [CHR 0x0A]
                 else [])) s"
  unfolding exec_query filterJSON_parsed[OF assms(1)]
  using assms(2) by (cases "Kind (Env h source)") (simp_all add: source_reader_def Let_def)

text \<open>
  \<^verbatim>\<open>query -R . docs\<close> has the three elements of \<^verbatim>\<open>docs\<close>, joined by newlines, as its
  raw input; \<^verbatim>\<open>query . assoc\<close> reads the empty string and ends without error.
\<close>

theorem C8_variable_source_witness:
  "flag_Parse query_flags (False, new_filter ''query: '') [''-R'', ''.'', ''docs''] =
     Inr ((True, new_filter ''query: ''), [''.'', ''docs'']) \<and> ''docs'' \<noteq> ''-'' \<and>
   exec sample_lib sample_prog sample_ctx [''query'', ''-R'', ''.'', ''docs''] fresh_io =
     Some (NoError,
       fresh_io\<lparr>Stdout := Writer (''a'' @ [CHR 0x0A] @ ''---'' @ [CHR 0x0A] @ ''b'') None,
         calls := [CParse ''.'', CRun ''.'' (VString (''a'' @ [CHR 0x0A] @ ''---'' @ [CHR 0x0A] @ ''b''))]\<rparr>) \<and>
   flag_Parse query_flags (False, new_filter ''query: '') [''.'', ''assoc''] =
     Inr ((False, new_filter ''query: ''), [''.'', ''assoc'']) \<and> ''assoc'' \<noteq> ''-'' \<and>
   exec sample_lib sample_prog sample_ctx [''query'', ''.'', ''assoc''] fresh_io = Some (NoError, fresh_io)"
proof -
  have p1: "flag_Parse query_flags (False, new_filter ''query: '') [''-R'', ''.'', ''docs''] =
     Inr ((True, new_filter ''query: ''), [''.'', ''docs''])"
    by (simp add: parseOne_def query_flags_def bind_def split_value_def new_filter_def)
  have p2: "flag_Parse query_flags (False, new_filter ''query: '') [''.'', ''assoc''] =
     Inr ((False, new_filter ''query: ''), [''.'', ''assoc''])"
    by (simp add: parseOne_def)
  have e1: "filter_reader sample_lib (new_filter ''query: '') True ''.''
              (strings_NewReader (Join [''a'', ''---'', ''b''] [CHR 0x0A])) fresh_io =
     Some (NoError,
       fresh_io\<lparr>Stdout := Writer (''a'' @ [CHR 0x0A] @ ''---'' @ [CHR 0x0A] @ ''b'') None,
         calls := [CParse ''.'', CRun ''.'' (VString (''a'' @ [CHR 0x0A] @ ''---'' @ [CHR 0x0A] @ ''b''))]\<rparr>)"
    by code_simp
  have e2: "filter_reader sample_lib (new_filter ''query: '') False ''.'' (strings_NewReader []) fresh_io =
     Some (NoError, fresh_io)"
    by code_simp
  show ?thesis
    using p1 p2 e1 e2
      C8_variable_source[OF p1, of sample_lib sample_prog sample_ctx fresh_io]
      C8_variable_source[OF p2, of sample_lib sample_prog sample_ctx fresh_io]
    by (simp add: sample_ctx_def)
qed

subsection \<open>C9\<close>

text \<open>
  \<^bold>\<open>C9.\<close> When \<^verbatim>\<open>json\<close> is set, \<^verbatim>\<open>yaml\<close> has no effect: the encoder is the JSON
  encoder, and every run, and every \<^verbatim>\<open>query\<close> from its reader on, returns with
  \<^verbatim>\<open>yaml\<close> set what it returns with \<^verbatim>\<open>yaml\<close> not set, on the same query and input.
\<close>

theorem C9_json_before_yaml:
  assumes "json j"
  shows "encoder (j\<lparr>yaml := True\<rparr>) = JSONEncoder (pretty j) \<and>
         encoder (j\<lparr>yaml := True\<rparr>) = encoder (j\<lparr>yaml := False\<rparr>) \<and>
         run L (j\<lparr>yaml := True\<rparr>) queryStr input s = run L (j\<lparr>yaml := False\<rparr>) queryStr input s \<and>
         filter_reader L (j\<lparr>yaml := True\<rparr>) rawInput queryStr r s =
           filter_reader L (j\<lparr>yaml := False\<rparr>) rawInput queryStr r s"
  using assms
  by (simp add: encoder_json run_json_yaml decode_loop_json_yaml filter_reader_def split: sum.splits)

text \<open>
  \<^verbatim>\<open>query -j -Y . v\<close> writes what \<^verbatim>\<open>query -j . v\<close> writes, the JSON string
  \<^verbatim>\<open>"hello"\<close> on a line.
\<close>

theorem C9_json_before_yaml_witness:
  "json ((new_filter ''query: '')\<lparr>json := True\<rparr>) \<and>
   flag_Parse query_flags (False, new_filter ''query: '') [''-j'', ''-Y'', ''.'', ''v''] =
     Inr ((False, (new_filter ''query: '')\<lparr>json := True, yaml := True\<rparr>), [''.'', ''v'']) \<and>
   encoder ((new_filter ''query: '')\<lparr>json := True, yaml := True\<rparr>) = JSONEncoder False \<and>
   exec sample_lib sample_prog sample_ctx [''query'', ''-j'', ''-Y'', ''.'', ''v''] fresh_io =
     exec sample_lib sample_prog sample_ctx [''query'', ''-j'', ''.'', ''v''] fresh_io \<and>
   exec sample_lib sample_prog sample_ctx [''query'', ''-j'', ''-Y'', ''.'', ''v''] fresh_io =
     Some (NoError,
       fresh_io\<lparr>Stdout := Writer ([CHR 0x22] @ ''hello'' @ [CHR 0x22, CHR 0x0A]) None,
         calls := [CParse ''.'', CRun ''.'' (VString ''hello'')]\<rparr>)"
proof -
  let ?j = "(new_filter ''query: '')\<lparr>json := True\<rparr>"
  have j: "json ?j" by (simp add: new_filter_def)
  have p1: "flag_Parse query_flags (False, new_filter ''query: '') [''-j'', ''-Y'', ''.'', ''v''] =
     Inr ((False, ?j\<lparr>yaml := True\<rparr>), [''.'', ''v''])"
    by (simp add: parseOne_def query_flags_def bind_def split_value_def new_filter_def)
  have p2: "flag_Parse query_flags (False, new_filter ''query: '') [''-j'', ''.'', ''v''] =
     Inr ((False, ?j), [''.'', ''v''])"
    by (simp add: parseOne_def query_flags_def bind_def split_value_def new_filter_def)
  have y: "?j\<lparr>yaml := False\<rparr> = ?j" by (simp add: new_filter_def)
  have pr: "\<not> pretty (new_filter ''query: '')" by (simp add: new_filter_def)
  have e: "exec sample_lib sample_prog sample_ctx [''query'', ''-j'', ''.'', ''v''] fresh_io =
     Some (NoError,
       fresh_io\<lparr>Stdout := Writer ([CHR 0x22] @ ''hello'' @ [CHR 0x22, CHR 0x0A]) None,
         calls := [CParse ''.'', CRun ''.'' (VString ''hello'')]\<rparr>)"
    by code_simp
  show ?thesis
    using j p1 e pr
      C9_json_before_yaml[OF j, of sample_lib "''.''" VNil fresh_io False "source_reader sample_ctx ''v''"]
    by (simp add: exec_query filterJSON_parsed[OF p1] filterJSON_parsed[OF p2] y)
qed

subsection \<open>C10\<close>

text \<open>
  \<^bold>\<open>C10.\<close> For a non-empty \<open>name\<close> of a string or indexed variable, the command
  \<^verbatim>\<open>@name\<close> with no argument is the command \<^verbatim>\<open>query . name\<close>: the query is \<^verbatim>\<open>.\<close>,
  with no flag set, and the input is the value of the variable, read as the source
  \<open>name\<close> of a \<^verbatim>\<open>query\<close> is (where the name \<^verbatim>\<open>-\<close> is standard input).
\<close>

theorem C10_at_without_arguments:
  assumes "name \<noteq> []"
    and "Kind (Env h name) = String \<or> Kind (Env h name) = Indexed"
  shows "exec L p h [CHR ''@'' # name] s = exec L p h [''query'', ''.'', name] s \<and>
         exec L p h [CHR ''@'' # name] s =
           filter_reader L (new_filter ''query: '') False ''.''
             (if name = ''-'' then Stdin h
              else strings_NewReader
                     (if Kind (Env h name) = String then Str (Env h name)
                      else Join (List (Env h name)) [CHR 0x0A])) s"
proof -
  have p: "flag_Parse query_flags (False, new_filter ''query: '') [] = Inr ((False, new_filter ''query: ''), [])"
    by simp
  have q: "flag_Parse query_flags (False, new_filter ''query: '') [''.'', name] =
             Inr ((False, new_filter ''query: ''), [''.'', name])"
    by (simp add: parseOne_def)
  have r: "source_reader h name =
             (if name = ''-'' then Stdin h
              else strings_NewReader
                     (if Kind (Env h name) = String then Str (Env h name)
                      else Join (List (Env h name)) [CHR 0x0A]))"
    using assms(2) by (auto simp: source_reader_def Let_def)
  show ?thesis
    using assms
    by (auto simp: exec_at exec_query filterJSON_parsed[OF p] filterJSON_parsed[OF q] r simp del: One_nat_def)
qed

text \<open>
  \<^verbatim>\<open>@v\<close> is \<^verbatim>\<open>query . v\<close> and writes the value of \<^verbatim>\<open>v\<close>.
\<close>

theorem C10_at_without_arguments_witness:
  "''v'' \<noteq> [] \<and> Kind (Env sample_ctx ''v'') = String \<and>
   exec sample_lib sample_prog sample_ctx [''@v''] fresh_io =
     exec sample_lib sample_prog sample_ctx [''query'', ''.'', ''v''] fresh_io \<and>
   exec sample_lib sample_prog sample_ctx [''@v''] fresh_io =
     Some (NoError,
       \<lparr>Stdout = Writer ''hello'' None, Stderr = [],
        calls = [CParse ''.'', CRun ''.'' (VString ''hello'')]\<rparr>)"
proof -
  have k: "Kind (Env sample_ctx ''v'') = String \<or> Kind (Env sample_ctx ''v'') = Indexed"
    by (simp add: sample_ctx_def)
  have n: "''v'' \<noteq> []" by simp
  have e: "filter_reader sample_lib (new_filter ''query: '') False ''.'' (strings_NewReader ''hello'') fresh_io =
     Some (NoError,
       \<lparr>Stdout = Writer ''hello'' None, Stderr = [],
        calls = [CParse ''.'', CRun ''.'' (VString ''hello'')]\<rparr>)"
    by code_simp
  have k0: "Kind (Env sample_ctx ''v'') = String" and v: "Str (Env sample_ctx ''v'') = ''hello''"
    by (simp_all add: sample_ctx_def)
  show ?thesis
    using k0 v e C10_at_without_arguments[OF n k, of sample_lib sample_prog fresh_io]
    by auto
qed

end
